theory Spec2Isabelle
  imports Main "HOL-Library.Word"
begin

unbundle bit_operations_syntax

section \<open>Vector primitives (intrin.h)\<close>

text \<open>
  An AVX2 register \<open>__m256i\<close> holds four 64-bit lanes.  It is modelled as a function
  from the lane index to the 64-bit word of that lane.
\<close>

type_synonym u64 = "64 word"
type_synonym u32 = "32 word"

datatype lane = L0 | L1 | L2 | L3

type_synonym m256i = "lane \<Rightarrow> u64"

text \<open>\<open>_mm256_add_epi64\<close>, \<open>_mm256_sub_epi64\<close>: lane-wise, wrapping.\<close>

definition VADD :: "m256i \<Rightarrow> m256i \<Rightarrow> m256i" where
  "VADD X Y = (\<lambda>j. X j + Y j)"

definition VSUB :: "m256i \<Rightarrow> m256i \<Rightarrow> m256i" where
  "VSUB X Y = (\<lambda>j. X j - Y j)"

text \<open>\<open>_mm256_mul_epu32\<close>: the low 32 bits of each 64-bit lane are multiplied to a
  64-bit product.\<close>

definition VMUL :: "m256i \<Rightarrow> m256i \<Rightarrow> m256i" where
  "VMUL X Y = (\<lambda>j. (X j AND 0xFFFFFFFF) * (Y j AND 0xFFFFFFFF))"

definition VMAC :: "m256i \<Rightarrow> m256i \<Rightarrow> m256i \<Rightarrow> m256i" where
  "VMAC Z X Y = VADD Z (VMUL X Y)"

definition VXOR :: "m256i \<Rightarrow> m256i \<Rightarrow> m256i" where
  "VXOR X Y = (\<lambda>j. X j XOR Y j)"

definition VAND :: "m256i \<Rightarrow> m256i \<Rightarrow> m256i" where
  "VAND X Y = (\<lambda>j. X j AND Y j)"

definition VOR :: "m256i \<Rightarrow> m256i \<Rightarrow> m256i" where
  "VOR X Y = (\<lambda>j. X j OR Y j)"

definition VSHR :: "m256i \<Rightarrow> nat \<Rightarrow> m256i" where
  "VSHR X n = (\<lambda>j. drop_bit n (X j))"

definition VSHL :: "m256i \<Rightarrow> nat \<Rightarrow> m256i" where
  "VSHL X n = (\<lambda>j. push_bit n (X j))"

definition VSET164 :: "u64 \<Rightarrow> m256i" where
  "VSET164 X = (\<lambda>j. X)"

definition VZERO :: m256i where
  "VZERO = (\<lambda>j. 0)"

text \<open>\<open>_mm256_set_epi64x(W, X, Y, Z)\<close>: \<open>Z\<close> is lane 0 and \<open>W\<close> is lane 3.\<close>

definition VSET64 :: "u64 \<Rightarrow> u64 \<Rightarrow> u64 \<Rightarrow> u64 \<Rightarrow> m256i" where
  "VSET64 W X Y Z = (\<lambda>j. case j of L0 \<Rightarrow> Z | L1 \<Rightarrow> Y | L2 \<Rightarrow> X | L3 \<Rightarrow> W)"


text \<open>\<open>_mm256_abs_epi8\<close>: the absolute value of each signed byte (\<open>-128\<close> stays
  \<open>0x80\<close>).\<close>

definition abs8 :: "8 word \<Rightarrow> 8 word" where
  "abs8 c = (if sint c < 0 then - c else c)"

definition abs_bytes :: "u64 \<Rightarrow> u64" where
  "abs_bytes w =
     fold (\<lambda>i acc. acc OR push_bit (8 * i) (ucast (abs8 (ucast (drop_bit (8 * i) w)))))
       [0..<8] 0"

definition VABS8 :: "m256i \<Rightarrow> m256i" where
  "VABS8 X = (\<lambda>j. abs_bytes (X j))"

text \<open>\<open>_mm256_shuffle_epi32\<close>: inside each 128-bit half, 32-bit element \<open>n\<close> of the
  result is the element of the source selected by bits \<open>2n+1..2n\<close> of the immediate.
  \<open>dword X k\<close> is 32-bit element \<open>k\<close> (0 to 7) of the register, zero-extended.\<close>

fun lane_id :: "lane \<Rightarrow> nat" where
  "lane_id L0 = 0" | "lane_id L1 = 1" | "lane_id L2 = 2" | "lane_id L3 = 3"

definition lane_of :: "nat \<Rightarrow> lane" where
  "lane_of n = (if n = 0 then L0 else if n = 1 then L1 else if n = 2 then L2 else L3)"

definition dword :: "m256i \<Rightarrow> nat \<Rightarrow> u64" where
  "dword X k = drop_bit (32 * (k mod 2)) (X (lane_of (k div 2))) AND 0xFFFFFFFF"

definition VSHUF32 :: "m256i \<Rightarrow> nat \<Rightarrow> m256i" where
  "VSHUF32 X imm =
     (\<lambda>j. let h = 4 * (lane_id j div 2);
              e = 2 * (lane_id j mod 2);
              sel = (\<lambda>n. (imm div 4 ^ n) mod 4)
          in dword X (h + sel e) OR push_bit 32 (dword X (h + sel (e + 1))))"

text \<open>\<open>VBROAD64(VLOAD128(p))\<close>: 128 bits are loaded from the address and the low 64 bits,
  the \<open>uint64_t\<close> stored at \<open>p\<close>, are copied to all four lanes.\<close>

definition VBROAD64 :: "u64 \<Rightarrow> m256i" where
  "VBROAD64 w = (\<lambda>j. w)"

section \<open>Field arithmetic (gfparith.c)\<close>

definition MASK29 :: u64 where "MASK29 = 0x1FFFFFFF"
definition CONSTC :: u64 where "CONSTC = 1216"
definition CONSTA :: nat where "CONSTA = 486662"
definition LSWP29 :: u64 where "LSWP29 = 0x1FFFFB40"
definition BITS29 :: nat where "BITS29 = 29"

text \<open>A field element is an array of \<open>NWORDS = 9\<close> vectors; element \<open>i\<close> of the list
  is limb \<open>i\<close>.\<close>

type_synonym mpi29 = "m256i list"

text \<open>\<open>mpi29_cswap_avx2\<close> updates both arrays in place; the model returns the pair of
  new contents \<open>(r, a)\<close>.\<close>

definition mpi29_cswap_avx2 :: "mpi29 \<Rightarrow> mpi29 \<Rightarrow> m256i \<Rightarrow> mpi29 \<times> mpi29" where
  "mpi29_cswap_avx2 r a b =
    (let r0 = r ! 0; r1 = r ! 1; r2 = r ! 2; r3 = r ! 3; r4 = r ! 4;
         r5 = r ! 5; r6 = r ! 6; r7 = r ! 7; r8 = r ! 8;
         a0 = a ! 0; a1 = a ! 1; a2 = a ! 2; a3 = a ! 3; a4 = a ! 4;
         a5 = a ! 5; a6 = a ! 6; a7 = a ! 7; a8 = a ! 8;
         mask = VSUB VZERO b;
         x0 = VXOR r0 a0; x1 = VXOR r1 a1; x2 = VXOR r2 a2;
         x3 = VXOR r3 a3; x4 = VXOR r4 a4; x5 = VXOR r5 a5;
         x6 = VXOR r6 a6; x7 = VXOR r7 a7; x8 = VXOR r8 a8;
         x0 = VAND x0 mask; x1 = VAND x1 mask; x2 = VAND x2 mask;
         x3 = VAND x3 mask; x4 = VAND x4 mask; x5 = VAND x5 mask;
         x6 = VAND x6 mask; x7 = VAND x7 mask; x8 = VAND x8 mask;
         r0 = VXOR r0 x0; r1 = VXOR r1 x1; r2 = VXOR r2 x2;
         r3 = VXOR r3 x3; r4 = VXOR r4 x4; r5 = VXOR r5 x5;
         r6 = VXOR r6 x6; r7 = VXOR r7 x7; r8 = VXOR r8 x8;
         a0 = VXOR a0 x0; a1 = VXOR a1 x1; a2 = VXOR a2 x2;
         a3 = VXOR a3 x3; a4 = VXOR a4 x4; a5 = VXOR a5 x5;
         a6 = VXOR a6 x6; a7 = VXOR a7 x7; a8 = VXOR a8 x8
     in ([r0, r1, r2, r3, r4, r5, r6, r7, r8], [a0, a1, a2, a3, a4, a5, a6, a7, a8]))"

text \<open>\<open>mpi29_gfp_add_avx2\<close>: \<open>r = a + b\<close>, no reduction.\<close>

definition mpi29_gfp_add_avx2 :: "mpi29 \<Rightarrow> mpi29 \<Rightarrow> mpi29" where
  "mpi29_gfp_add_avx2 a b =
    (let
         a0 = a ! 0; a1 = a ! 1; a2 = a ! 2; a3 = a ! 3; a4 = a ! 4; a5 = a ! 5; a6 = a ! 6;
         a7 = a ! 7; a8 = a ! 8; b0 = b ! 0; b1 = b ! 1; b2 = b ! 2; b3 = b ! 3; b4 = b ! 4;
         b5 = b ! 5; b6 = b ! 6; b7 = b ! 7; b8 = b ! 8; r0 = VADD a0 b0; r1 = VADD a1 b1;
         r2 = VADD a2 b2; r3 = VADD a3 b3; r4 = VADD a4 b4; r5 = VADD a5 b5;
         r6 = VADD a6 b6; r7 = VADD a7 b7; r8 = VADD a8 b8
     in [r0, r1, r2, r3, r4, r5, r6, r7, r8])"

text \<open>\<open>mpi29_gfp_sub_avx2\<close>: \<open>r = 2p + a - b\<close>, no carry propagation.\<close>

definition mpi29_gfp_sub_avx2 :: "mpi29 \<Rightarrow> mpi29 \<Rightarrow> mpi29" where
  "mpi29_gfp_sub_avx2 a b =
    (let
         a0 = a ! 0; a1 = a ! 1; a2 = a ! 2; a3 = a ! 3; a4 = a ! 4; a5 = a ! 5; a6 = a ! 6;
         a7 = a ! 7; a8 = a ! 8; b0 = b ! 0; b1 = b ! 1; b2 = b ! 2; b3 = b ! 3; b4 = b ! 4;
         b5 = b ! 5; b6 = b ! 6; b7 = b ! 7; b8 = b ! 8; VDLSWP = VSET164 (LSWP29 * 2);
         VDWRDP = VSET164 (MASK29 * 2); r0 = VADD VDLSWP (VSUB a0 b0);
         r1 = VADD VDWRDP (VSUB a1 b1); r2 = VADD VDWRDP (VSUB a2 b2);
         r3 = VADD VDWRDP (VSUB a3 b3); r4 = VADD VDWRDP (VSUB a4 b4);
         r5 = VADD VDWRDP (VSUB a5 b5); r6 = VADD VDWRDP (VSUB a6 b6);
         r7 = VADD VDWRDP (VSUB a7 b7); r8 = VADD VDWRDP (VSUB a8 b8)
     in [r0, r1, r2, r3, r4, r5, r6, r7, r8])"

text \<open>\<open>mpi29_gfp_sbc_avx2\<close>: \<open>r = 2p + a - b mod p\<close>, with carry propagation and one fold of the top carry.\<close>

definition mpi29_gfp_sbc_avx2 :: "mpi29 \<Rightarrow> mpi29 \<Rightarrow> mpi29" where
  "mpi29_gfp_sbc_avx2 a b =
    (let
         a0 = a ! 0; a1 = a ! 1; a2 = a ! 2; a3 = a ! 3; a4 = a ! 4; a5 = a ! 5; a6 = a ! 6;
         a7 = a ! 7; a8 = a ! 8; b0 = b ! 0; b1 = b ! 1; b2 = b ! 2; b3 = b ! 3; b4 = b ! 4;
         b5 = b ! 5; b6 = b ! 6; b7 = b ! 7; b8 = b ! 8; VDLSWP = VSET164 (LSWP29 * 2);
         VDWRDP = VSET164 (MASK29 * 2); VMASK29 = VSET164 MASK29; VCONSTC = VSET164 CONSTC;
         r0 = VADD VDLSWP (VSUB a0 b0); r1 = VADD VDWRDP (VSUB a1 b1);
         r2 = VADD VDWRDP (VSUB a2 b2); r3 = VADD VDWRDP (VSUB a3 b3);
         r4 = VADD VDWRDP (VSUB a4 b4); r5 = VADD VDWRDP (VSUB a5 b5);
         r6 = VADD VDWRDP (VSUB a6 b6); r7 = VADD VDWRDP (VSUB a7 b7);
         r8 = VADD VDWRDP (VSUB a8 b8); r1 = VADD r1 (VSHR r0 BITS29); r0 = VAND r0 VMASK29;
         r2 = VADD r2 (VSHR r1 BITS29); r1 = VAND r1 VMASK29; r3 = VADD r3 (VSHR r2 BITS29);
         r2 = VAND r2 VMASK29; r4 = VADD r4 (VSHR r3 BITS29); r3 = VAND r3 VMASK29;
         r5 = VADD r5 (VSHR r4 BITS29); r4 = VAND r4 VMASK29; r6 = VADD r6 (VSHR r5 BITS29);
         r5 = VAND r5 VMASK29; r7 = VADD r7 (VSHR r6 BITS29); r6 = VAND r6 VMASK29;
         r8 = VADD r8 (VSHR r7 BITS29); r7 = VAND r7 VMASK29; temp = VSHR r8 BITS29;
         temp = VMUL temp VCONSTC; r0 = VADD r0 temp; r8 = VAND r8 VMASK29
     in [r0, r1, r2, r3, r4, r5, r6, r7, r8])"

text \<open>\<open>mpi29_gfp_mul_avx2\<close>: Product scanning in two loops, then the modulo-p reduction.\<close>

definition mpi29_gfp_mul_avx2 :: "mpi29 \<Rightarrow> mpi29 \<Rightarrow> mpi29" where
  "mpi29_gfp_mul_avx2 a b =
    (let
         a0 = a ! 0; a1 = a ! 1; a2 = a ! 2; a3 = a ! 3; a4 = a ! 4; a5 = a ! 5; a6 = a ! 6;
         a7 = a ! 7; a8 = a ! 8; b0 = b ! 0; b1 = b ! 1; b2 = b ! 2; b3 = b ! 3; b4 = b ! 4;
         b5 = b ! 5; b6 = b ! 6; b7 = b ! 7; b8 = b ! 8; VMASK29 = VSET164 MASK29;
         VCONSTC = VSET164 CONSTC; t0 = VMUL a0 b0; t1 = VMUL a0 b1; t1 = VMAC t1 a1 b0;
         t2 = VMUL a0 b2; t2 = VMAC t2 a1 b1; t2 = VMAC t2 a2 b0; t3 = VMUL a0 b3;
         t3 = VMAC t3 a1 b2; t3 = VMAC t3 a2 b1; t3 = VMAC t3 a3 b0; t4 = VMUL a0 b4;
         t4 = VMAC t4 a1 b3; t4 = VMAC t4 a2 b2; t4 = VMAC t4 a3 b1; t4 = VMAC t4 a4 b0;
         t5 = VMUL a0 b5; t5 = VMAC t5 a1 b4; t5 = VMAC t5 a2 b3; t5 = VMAC t5 a3 b2;
         t5 = VMAC t5 a4 b1; t5 = VMAC t5 a5 b0; t6 = VMUL a0 b6; t6 = VMAC t6 a1 b5;
         t6 = VMAC t6 a2 b4; t6 = VMAC t6 a3 b3; t6 = VMAC t6 a4 b2; t6 = VMAC t6 a5 b1;
         t6 = VMAC t6 a6 b0; t7 = VMUL a0 b7; t7 = VMAC t7 a1 b6; t7 = VMAC t7 a2 b5;
         t7 = VMAC t7 a3 b4; t7 = VMAC t7 a4 b3; t7 = VMAC t7 a5 b2; t7 = VMAC t7 a6 b1;
         t7 = VMAC t7 a7 b0; t8 = VMUL a0 b8; t8 = VMAC t8 a1 b7; t8 = VMAC t8 a2 b6;
         t8 = VMAC t8 a3 b5; t8 = VMAC t8 a4 b4; t8 = VMAC t8 a5 b3; t8 = VMAC t8 a6 b2;
         t8 = VMAC t8 a7 b1; t8 = VMAC t8 a8 b0; accu = VSHR t8 BITS29;
         t8 = VAND t8 VMASK29; accu = VMAC accu a1 b8; accu = VMAC accu a2 b7;
         accu = VMAC accu a3 b6; accu = VMAC accu a4 b5; accu = VMAC accu a5 b4;
         accu = VMAC accu a6 b3; accu = VMAC accu a7 b2; accu = VMAC accu a8 b1;
         r0 = VAND accu VMASK29; accu = VSHR accu BITS29; accu = VMAC accu a2 b8;
         accu = VMAC accu a3 b7; accu = VMAC accu a4 b6; accu = VMAC accu a5 b5;
         accu = VMAC accu a6 b4; accu = VMAC accu a7 b3; accu = VMAC accu a8 b2;
         r1 = VAND accu VMASK29; accu = VSHR accu BITS29; accu = VMAC accu a3 b8;
         accu = VMAC accu a4 b7; accu = VMAC accu a5 b6; accu = VMAC accu a6 b5;
         accu = VMAC accu a7 b4; accu = VMAC accu a8 b3; r2 = VAND accu VMASK29;
         accu = VSHR accu BITS29; accu = VMAC accu a4 b8; accu = VMAC accu a5 b7;
         accu = VMAC accu a6 b6; accu = VMAC accu a7 b5; accu = VMAC accu a8 b4;
         r3 = VAND accu VMASK29; accu = VSHR accu BITS29; accu = VMAC accu a5 b8;
         accu = VMAC accu a6 b7; accu = VMAC accu a7 b6; accu = VMAC accu a8 b5;
         r4 = VAND accu VMASK29; accu = VSHR accu BITS29; accu = VMAC accu a6 b8;
         accu = VMAC accu a7 b7; accu = VMAC accu a8 b6; r5 = VAND accu VMASK29;
         accu = VSHR accu BITS29; accu = VMAC accu a7 b8; accu = VMAC accu a8 b7;
         r6 = VAND accu VMASK29; accu = VSHR accu BITS29; accu = VMAC accu a8 b8;
         r7 = VAND accu VMASK29; r8 = VSHR accu BITS29; accu = VMAC t0 r0 VCONSTC;
         r0 = VAND accu VMASK29; accu = VADD t1 (VSHR accu BITS29);
         accu = VMAC accu r1 VCONSTC; r1 = VAND accu VMASK29;
         accu = VADD t2 (VSHR accu BITS29); accu = VMAC accu r2 VCONSTC;
         r2 = VAND accu VMASK29; accu = VADD t3 (VSHR accu BITS29);
         accu = VMAC accu r3 VCONSTC; r3 = VAND accu VMASK29;
         accu = VADD t4 (VSHR accu BITS29); accu = VMAC accu r4 VCONSTC;
         r4 = VAND accu VMASK29; accu = VADD t5 (VSHR accu BITS29);
         accu = VMAC accu r5 VCONSTC; r5 = VAND accu VMASK29;
         accu = VADD t6 (VSHR accu BITS29); accu = VMAC accu r6 VCONSTC;
         r6 = VAND accu VMASK29; accu = VADD t7 (VSHR accu BITS29);
         accu = VMAC accu r7 VCONSTC; r7 = VAND accu VMASK29;
         accu = VADD t8 (VSHR accu BITS29); accu = VMAC accu r8 VCONSTC;
         r8 = VAND accu VMASK29; accu = VSHR accu BITS29; r0 = VMAC r0 accu VCONSTC
     in [r0, r1, r2, r3, r4, r5, r6, r7, r8])"

text \<open>\<open>mpi29_gfp_mul29_avx2\<close>: Multiplication by a 29-bit integer \<open>b\<close> (a \<open>uint32_t\<close>, broadcast zero-extended).\<close>

definition mpi29_gfp_mul29_avx2 :: "mpi29 \<Rightarrow> u32 \<Rightarrow> mpi29" where
  "mpi29_gfp_mul29_avx2 a b =
    (let
         a0 = a ! 0; a1 = a ! 1; a2 = a ! 2; a3 = a ! 3; a4 = a ! 4; a5 = a ! 5; a6 = a ! 6;
         a7 = a ! 7; a8 = a ! 8; vb = VSET164 (ucast b); VMASK29 = VSET164 MASK29;
         VCONSTC = VSET164 CONSTC; accu = VMUL a0 vb; r0 = VAND accu VMASK29;
         accu = VSHR accu BITS29; accu = VMAC accu a1 vb; r1 = VAND accu VMASK29;
         accu = VSHR accu BITS29; accu = VMAC accu a2 vb; r2 = VAND accu VMASK29;
         accu = VSHR accu BITS29; accu = VMAC accu a3 vb; r3 = VAND accu VMASK29;
         accu = VSHR accu BITS29; accu = VMAC accu a4 vb; r4 = VAND accu VMASK29;
         accu = VSHR accu BITS29; accu = VMAC accu a5 vb; r5 = VAND accu VMASK29;
         accu = VSHR accu BITS29; accu = VMAC accu a6 vb; r6 = VAND accu VMASK29;
         accu = VSHR accu BITS29; accu = VMAC accu a7 vb; r7 = VAND accu VMASK29;
         accu = VSHR accu BITS29; accu = VMAC accu a8 vb; r8 = VAND accu VMASK29;
         accu = VMUL VCONSTC (VSHR accu BITS29); r0 = VADD r0 (VAND accu VMASK29);
         r1 = VADD r1 (VSHR accu BITS29)
     in [r0, r1, r2, r3, r4, r5, r6, r7, r8])"

text \<open>\<open>mpi29_gfp_sqr_avx2\<close>: Product-scanning squaring, then the modulo-p reduction.\<close>

definition mpi29_gfp_sqr_avx2 :: "mpi29 \<Rightarrow> mpi29" where
  "mpi29_gfp_sqr_avx2 a =
    (let
         a0 = a ! 0; a1 = a ! 1; a2 = a ! 2; a3 = a ! 3; a4 = a ! 4; a5 = a ! 5; a6 = a ! 6;
         a7 = a ! 7; a8 = a ! 8; VMASK29 = VSET164 MASK29; VCONSTC = VSET164 CONSTC;
         t0 = VMUL a0 a0; accu = VMUL a0 a1; t1 = VSHL accu 1; accu = VMUL a0 a2;
         t2 = VSHL accu 1; t2 = VMAC t2 a1 a1; accu = VMUL a0 a3; accu = VMAC accu a1 a2;
         t3 = VSHL accu 1; accu = VMUL a0 a4; accu = VMAC accu a1 a3; t4 = VSHL accu 1;
         t4 = VMAC t4 a2 a2; accu = VMUL a0 a5; accu = VMAC accu a1 a4;
         accu = VMAC accu a2 a3; t5 = VSHL accu 1; accu = VMUL a0 a6;
         accu = VMAC accu a1 a5; accu = VMAC accu a2 a4; t6 = VSHL accu 1;
         t6 = VMAC t6 a3 a3; accu = VMUL a0 a7; accu = VMAC accu a1 a6;
         accu = VMAC accu a2 a5; accu = VMAC accu a3 a4; t7 = VSHL accu 1;
         accu = VMUL a0 a8; accu = VMAC accu a1 a7; accu = VMAC accu a2 a6;
         accu = VMAC accu a3 a5; t8 = VSHL accu 1; t8 = VMAC t8 a4 a4;
         temp = VSHR t8 BITS29; t8 = VAND t8 VMASK29; accu = VMUL a1 a8;
         accu = VMAC accu a2 a7; accu = VMAC accu a3 a6; accu = VMAC accu a4 a5;
         temp = VADD temp (VSHL accu 1); r0 = VAND temp VMASK29; temp = VSHR temp BITS29;
         accu = VMUL a2 a8; accu = VMAC accu a3 a7; accu = VMAC accu a4 a6;
         temp = VADD temp (VSHL accu 1); temp = VMAC temp a5 a5; r1 = VAND temp VMASK29;
         temp = VSHR temp BITS29; accu = VMUL a3 a8; accu = VMAC accu a4 a7;
         accu = VMAC accu a5 a6; temp = VADD temp (VSHL accu 1); r2 = VAND temp VMASK29;
         temp = VSHR temp BITS29; accu = VMUL a4 a8; accu = VMAC accu a5 a7;
         temp = VADD temp (VSHL accu 1); temp = VMAC temp a6 a6; r3 = VAND temp VMASK29;
         temp = VSHR temp BITS29; accu = VMUL a5 a8; accu = VMAC accu a6 a7;
         temp = VADD temp (VSHL accu 1); r4 = VAND temp VMASK29; temp = VSHR temp BITS29;
         accu = VMUL a6 a8; temp = VADD temp (VSHL accu 1); temp = VMAC temp a7 a7;
         r5 = VAND temp VMASK29; temp = VSHR temp BITS29; accu = VMUL a7 a8;
         temp = VADD temp (VSHL accu 1); r6 = VAND temp VMASK29; temp = VSHR temp BITS29;
         temp = VMAC temp a8 a8; r7 = VAND temp VMASK29; r8 = VSHR temp BITS29;
         accu = VADD t0 (VMUL r0 VCONSTC); r0 = VAND accu VMASK29;
         accu = VADD t1 (VSHR accu BITS29); accu = VMAC accu r1 VCONSTC;
         r1 = VAND accu VMASK29; accu = VADD t2 (VSHR accu BITS29);
         accu = VMAC accu r2 VCONSTC; r2 = VAND accu VMASK29;
         accu = VADD t3 (VSHR accu BITS29); accu = VMAC accu r3 VCONSTC;
         r3 = VAND accu VMASK29; accu = VADD t4 (VSHR accu BITS29);
         accu = VMAC accu r4 VCONSTC; r4 = VAND accu VMASK29;
         accu = VADD t5 (VSHR accu BITS29); accu = VMAC accu r5 VCONSTC;
         r5 = VAND accu VMASK29; accu = VADD t6 (VSHR accu BITS29);
         accu = VMAC accu r6 VCONSTC; r6 = VAND accu VMASK29;
         accu = VADD t7 (VSHR accu BITS29); accu = VMAC accu r7 VCONSTC;
         r7 = VAND accu VMASK29; accu = VADD t8 (VSHR accu BITS29);
         accu = VMAC accu r8 VCONSTC; r8 = VAND accu VMASK29; accu = VSHR accu BITS29;
         r0 = VADD r0 (VMUL accu VCONSTC)
     in [r0, r1, r2, r3, r4, r5, r6, r7, r8])"

text \<open>\<open>mpi29_gfp_inv_avx2\<close>: the fixed chain of squarings and multiplications.  The
  loops \<open>for (i = 0; i < n; i++) mpi29_gfp_sqr_avx2(t, t)\<close> are \<open>n\<close>-fold iterations.\<close>

definition mpi29_gfp_inv_avx2 :: "mpi29 \<Rightarrow> mpi29" where
  "mpi29_gfp_inv_avx2 a =
    (let t0 = mpi29_gfp_sqr_avx2 a;
         t1 = mpi29_gfp_sqr_avx2 t0;
         t1 = mpi29_gfp_sqr_avx2 t1;
         t1 = mpi29_gfp_mul_avx2 a t1;
         t0 = mpi29_gfp_mul_avx2 t0 t1;
         t2 = mpi29_gfp_sqr_avx2 t0;
         t1 = mpi29_gfp_mul_avx2 t1 t2;
         t2 = mpi29_gfp_sqr_avx2 t1;
         t2 = (mpi29_gfp_sqr_avx2 ^^ 4) t2;
         t1 = mpi29_gfp_mul_avx2 t2 t1;
         t2 = mpi29_gfp_sqr_avx2 t1;
         t2 = (mpi29_gfp_sqr_avx2 ^^ 9) t2;
         t2 = mpi29_gfp_mul_avx2 t2 t1;
         t3 = mpi29_gfp_sqr_avx2 t2;
         t3 = (mpi29_gfp_sqr_avx2 ^^ 19) t3;
         t2 = mpi29_gfp_mul_avx2 t3 t2;
         t2 = mpi29_gfp_sqr_avx2 t2;
         t2 = (mpi29_gfp_sqr_avx2 ^^ 9) t2;
         t1 = mpi29_gfp_mul_avx2 t2 t1;
         t2 = mpi29_gfp_sqr_avx2 t1;
         t2 = (mpi29_gfp_sqr_avx2 ^^ 49) t2;
         t2 = mpi29_gfp_mul_avx2 t2 t1;
         t3 = mpi29_gfp_sqr_avx2 t2;
         t3 = (mpi29_gfp_sqr_avx2 ^^ 99) t3;
         t2 = mpi29_gfp_mul_avx2 t3 t2;
         t2 = mpi29_gfp_sqr_avx2 t2;
         t2 = (mpi29_gfp_sqr_avx2 ^^ 49) t2;
         t1 = mpi29_gfp_mul_avx2 t2 t1;
         t1 = mpi29_gfp_sqr_avx2 t1;
         t1 = (mpi29_gfp_sqr_avx2 ^^ 4) t1
     in mpi29_gfp_mul_avx2 t1 t0)"

definition mpi29_copy_avx2 :: "mpi29 \<Rightarrow> mpi29" where
  "mpi29_copy_avx2 a = [a ! 0, a ! 1, a ! 2, a ! 3, a ! 4, a ! 5, a ! 6, a ! 7, a ! 8]"

section \<open>Montgomery curve (moncurve.c)\<close>

text \<open>\<open>ProPoint\<close>: projective point with coordinates \<open>x, y, z\<close> (fields \<open>px, py, pz\<close>).\<close>

record ProPoint =
  px :: mpi29
  py :: mpi29
  pz :: mpi29

text \<open>
  \<open>mon_ladder_step_avx2\<close> updates \<open>p\<close> and \<open>q\<close> in place and uses their y-coordinates
  as \<open>tmp1 = p->y\<close> and \<open>tmp2 = q->y\<close>.  The model threads the two records through the
  eighteen calls in source order.  The third component is a log, in call order, of the
  operands handed to every multiplication and squaring (the operands of
  \<open>mpi29_gfp_mul_avx2\<close>, \<open>mpi29_gfp_sqr_avx2\<close> and the field operand of
  \<open>mpi29_gfp_mul29_avx2\<close>); it does not influence the computation.
\<close>

definition mon_ladder_step_log :: "ProPoint \<Rightarrow> ProPoint \<Rightarrow> mpi29 \<Rightarrow> ProPoint \<times> ProPoint \<times> mpi29 list" where
  "mon_ladder_step_log p q xd =
    (let ops = [];
         p = p\<lparr>py := mpi29_gfp_add_avx2 (px p) (pz p)\<rparr>;
         p = p\<lparr>px := mpi29_gfp_sbc_avx2 (px p) (pz p)\<rparr>;
         q = q\<lparr>py := mpi29_gfp_add_avx2 (px q) (pz q)\<rparr>;
         q = q\<lparr>px := mpi29_gfp_sub_avx2 (px q) (pz q)\<rparr>;
         ops = ops @ [py p];
         p = p\<lparr>pz := mpi29_gfp_sqr_avx2 (py p)\<rparr>;
         ops = ops @ [py q, px p];
         q = q\<lparr>pz := mpi29_gfp_mul_avx2 (py q) (px p)\<rparr>;
         ops = ops @ [px q, py p];
         q = q\<lparr>py := mpi29_gfp_mul_avx2 (px q) (py p)\<rparr>;
         ops = ops @ [px p];
         p = p\<lparr>py := mpi29_gfp_sqr_avx2 (px p)\<rparr>;
         ops = ops @ [pz p, py p];
         p = p\<lparr>px := mpi29_gfp_mul_avx2 (pz p) (py p)\<rparr>;
         p = p\<lparr>py := mpi29_gfp_sub_avx2 (pz p) (py p)\<rparr>;
         ops = ops @ [py p];
         q = q\<lparr>px := mpi29_gfp_mul29_avx2 (py p) (word_of_nat ((CONSTA - 2) div 4))\<rparr>;
         q = q\<lparr>px := mpi29_gfp_add_avx2 (px q) (pz p)\<rparr>;
         ops = ops @ [px q, py p];
         p = p\<lparr>pz := mpi29_gfp_mul_avx2 (px q) (py p)\<rparr>;
         p = p\<lparr>py := mpi29_gfp_add_avx2 (py q) (pz q)\<rparr>;
         ops = ops @ [py p];
         q = q\<lparr>px := mpi29_gfp_sqr_avx2 (py p)\<rparr>;
         p = p\<lparr>py := mpi29_gfp_sbc_avx2 (py q) (pz q)\<rparr>;
         ops = ops @ [py p];
         q = q\<lparr>py := mpi29_gfp_sqr_avx2 (py p)\<rparr>;
         ops = ops @ [py q, xd];
         q = q\<lparr>pz := mpi29_gfp_mul_avx2 (py q) xd\<rparr>
     in (p, q, ops))"

definition mon_ladder_step_avx2 :: "ProPoint \<Rightarrow> ProPoint \<Rightarrow> mpi29 \<Rightarrow> ProPoint \<times> ProPoint" where
  "mon_ladder_step_avx2 p q xd = (case mon_ladder_step_log p q xd of (p', q', ops) \<Rightarrow> (p', q'))"

definition mon_cswap_point_avx2 :: "ProPoint \<Rightarrow> ProPoint \<Rightarrow> m256i \<Rightarrow> ProPoint \<times> ProPoint" where
  "mon_cswap_point_avx2 p q b =
    (let one = VSET164 1;
         cbit = VAND b one;
         (x1, x2) = mpi29_cswap_avx2 (px p) (px q) cbit;
         (z1, z2) = mpi29_cswap_avx2 (pz p) (pz q) cbit
     in (p\<lparr>px := x1, pz := z1\<rparr>, q\<lparr>px := x2, pz := z2\<rparr>))"

text \<open>The scalar is pruned in both scalar multiplications: \<open>kp[i] = k[i]\<close> for
  \<open>i < 8\<close>, then \<open>kp[0] &= t0\<close>, \<open>kp[7] &= t1\<close>, \<open>kp[7] |= t2\<close>.\<close>

definition prune_scalar :: "m256i list \<Rightarrow> m256i list" where
  "prune_scalar k =
    (let t0 = VSET164 0xFFFFFFF8;
         t1 = VSET164 0x7FFFFFFF;
         t2 = VSET164 0x40000000;
         kp = map (\<lambda>i. k ! i) [0..<8];
         kp = kp[0 := VAND (kp ! 0) t0];
         kp = kp[7 := VAND (kp ! 7) t1];
         kp = kp[7 := VOR (kp ! 7) t2]
     in kp)"

text \<open>The main ladder loop \<open>for (i = 254; i >= 0; i--)\<close>: \<open>mon_ladder_loop kp x n\<close>
  runs the iterations \<open>i = n - 1, ..., 0\<close> on the state \<open>(p1, p2, s)\<close>.\<close>

fun mon_ladder_loop :: "m256i list \<Rightarrow> mpi29 \<Rightarrow> nat \<Rightarrow> ProPoint \<times> ProPoint \<times> m256i
    \<Rightarrow> ProPoint \<times> ProPoint \<times> m256i" where
  "mon_ladder_loop kp x 0 st = st"
| "mon_ladder_loop kp x (Suc i) (p1, p2, s) =
    (let b = kp ! (i div 32);
         b = VSHR b (i mod 32);
         s = VXOR s b;
         (p1, p2) = mon_cswap_point_avx2 p1 p2 s;
         (p1, p2) = mon_ladder_step_avx2 p1 p2 x;
         s = b
     in mon_ladder_loop kp x i (p1, p2, s))"

definition mon_mul_varbase_avx2 :: "m256i list \<Rightarrow> mpi29 \<Rightarrow> mpi29" where
  "mon_mul_varbase_avx2 k x =
    (let s = VZERO;
         kp = prune_scalar k;
         z9 = replicate 9 VZERO;
         p1 = \<lparr>px = z9[0 := VSET164 1], py = z9, pz = z9\<rparr>;
         p2 = \<lparr>px = map (\<lambda>i. x ! i) [0..<9], py = z9, pz = z9[0 := VSET164 1]\<rparr>;
         (p1, p2, s) = mon_ladder_loop kp x 255 (p1, p2, s);
         (p1, p2) = mon_cswap_point_avx2 p1 p2 s;
         p2 = p2\<lparr>py := mpi29_gfp_inv_avx2 (pz p1)\<rparr>
     in mpi29_gfp_mul_avx2 (py p2) (px p1))"

section \<open>Twisted Edwards curve (tedcurve.c)\<close>

text \<open>\<open>ExtPoint\<close>: point in extended projective coordinates \<open>[x, y, z, e, h]\<close>
  (fields \<open>ex, ey, ez, ee, eh\<close>).\<close>

record ExtPoint =
  ex :: mpi29
  ey :: mpi29
  ez :: mpi29
  ee :: mpi29
  eh :: mpi29

text \<open>The entries of the precomputed table \<open>base[32][8]\<close>: three coordinates of four
  \<open>uint64_t\<close> words each.  The table itself (\<open>base.h\<close>) is not among the sources; every
  function that reads it takes it as the parameter \<open>base\<close>.\<close>

record LutPoint =
  lx :: "u64 list"
  ly :: "u64 list"
  lz :: "u64 list"

definition one_half :: "u64 list" where
  "one_half = [0xFFFFFFFFFFFFFFF7, 0xFFFFFFFFFFFFFFFF, 0xFFFFFFFFFFFFFFFF, 0x3FFFFFFFFFFFFFFF]"

text \<open>Modelled from the spec: \<open>lut_conv_coor2mpi29_avx2\<close> is declared in the missing
  \<open>base.h\<close>.  The spec says it converts the packed 4x64-bit chunk layout of a stored
  field element into the 9x29-bit limb layout: per lane, limb \<open>i\<close> is bits
  \<open>29 i .. 29 i + 28\<close> of the 256-bit integer whose 64-bit chunks are given.\<close>

definition lut_conv_coor2mpi29_avx2 :: "m256i list \<Rightarrow> mpi29" where
  "lut_conv_coor2mpi29_avx2 a =
     map (\<lambda>i. (\<lambda>j. word_of_nat
        ((unat ((a ! 0) j) + unat ((a ! 1) j) * 2 ^ 64 + unat ((a ! 2) j) * 2 ^ 128
            + unat ((a ! 3) j) * 2 ^ 192)
           div 2 ^ (29 * i) mod 2 ^ 29))) [0..<9]"

text \<open>\<open>ted_point_add_avx2(&h, &h, r)\<close>: the only call passes the same object as result and
  as first operand, so the model updates the one record in place, statement by statement.\<close>

definition ted_point_add_avx2 :: "ExtPoint \<Rightarrow> ProPoint \<Rightarrow> ExtPoint" where
  "ted_point_add_avx2 h q =
    (let t = mpi29_gfp_mul_avx2 (ee h) (eh h);
         h = h\<lparr>ee := mpi29_gfp_sub_avx2 (ey h) (ex h)\<rparr>;
         h = h\<lparr>eh := mpi29_gfp_add_avx2 (ey h) (ex h)\<rparr>;
         h = h\<lparr>ex := mpi29_gfp_mul_avx2 (ee h) (py q)\<rparr>;
         h = h\<lparr>ey := mpi29_gfp_mul_avx2 (eh h) (px q)\<rparr>;
         h = h\<lparr>ee := mpi29_gfp_sub_avx2 (ey h) (ex h)\<rparr>;
         h = h\<lparr>eh := mpi29_gfp_add_avx2 (ey h) (ex h)\<rparr>;
         h = h\<lparr>ex := mpi29_gfp_mul_avx2 t (pz q)\<rparr>;
         t = mpi29_gfp_sbc_avx2 (ez h) (ex h);
         h = h\<lparr>ex := mpi29_gfp_add_avx2 (ez h) (ex h)\<rparr>;
         h = h\<lparr>ez := mpi29_gfp_mul_avx2 t (ex h)\<rparr>;
         h = h\<lparr>ey := mpi29_gfp_mul_avx2 (ex h) (eh h)\<rparr>;
         h = h\<lparr>ex := mpi29_gfp_mul_avx2 (ee h) t\<rparr>
     in h)"

text \<open>\<open>ted_point_dbl_avx2(&h, &h)\<close>, in place as well.\<close>

definition ted_point_dbl_avx2 :: "ExtPoint \<Rightarrow> ExtPoint" where
  "ted_point_dbl_avx2 h =
    (let h = h\<lparr>ee := mpi29_gfp_sqr_avx2 (ex h)\<rparr>;
         h = h\<lparr>eh := mpi29_gfp_sqr_avx2 (ey h)\<rparr>;
         t = mpi29_gfp_sbc_avx2 (ee h) (eh h);
         h = h\<lparr>eh := mpi29_gfp_add_avx2 (ee h) (eh h)\<rparr>;
         h = h\<lparr>ex := mpi29_gfp_add_avx2 (ex h) (ey h)\<rparr>;
         h = h\<lparr>ee := mpi29_gfp_sqr_avx2 (ex h)\<rparr>;
         h = h\<lparr>ee := mpi29_gfp_sub_avx2 (eh h) (ee h)\<rparr>;
         h = h\<lparr>ey := mpi29_gfp_sqr_avx2 (ez h)\<rparr>;
         h = h\<lparr>ey := mpi29_gfp_mul29_avx2 (ey h) 2\<rparr>;
         h = h\<lparr>ey := mpi29_gfp_add_avx2 t (ey h)\<rparr>;
         h = h\<lparr>ex := mpi29_gfp_mul_avx2 (ee h) (ey h)\<rparr>;
         h = h\<lparr>ez := mpi29_gfp_mul_avx2 (ey h) t\<rparr>;
         h = h\<lparr>ey := mpi29_gfp_mul_avx2 t (eh h)\<rparr>
     in h)"

text \<open>\<open>ted_point_init_ext_avx2\<close>: the point \<open>[0, 1, 1, 0, 1]\<close>.\<close>

definition ted_point_init_ext_avx2 :: ExtPoint where
  "ted_point_init_ext_avx2 =
    (let zero = VZERO;
         one = VSET164 1
     in \<lparr>ex = zero # replicate 8 zero, ey = one # replicate 8 zero, ez = one # replicate 8 zero,
         ee = zero # replicate 8 zero, eh = one # replicate 8 zero\<rparr>)"

text \<open>The mask loop of \<open>ted_point_query_table_avx2\<close>: \<open>query_masks n babs index\<close> produces
  the next \<open>n\<close> masks, starting at the running value of \<open>index\<close>.\<close>

fun query_masks :: "nat \<Rightarrow> m256i \<Rightarrow> m256i \<Rightarrow> m256i list" where
  "query_masks 0 babs index = []"
| "query_masks (Suc n) babs index =
    (let one = VSET164 1;
         m = VXOR babs index;
         m = VSUB m one;
         m = VSHR m 32;
         m = VSHUF32 m 0xA0
     in m # query_masks n babs (VADD index one))"

text \<open>One iteration \<open>i\<close> of the table loop: the selected 64-bit chunks
  \<open>(xP[i], yP[i], zP[i])\<close>.\<close>

definition query_chunk :: "(nat \<Rightarrow> nat \<Rightarrow> LutPoint) \<Rightarrow> nat \<Rightarrow> m256i list \<Rightarrow> nat
    \<Rightarrow> m256i \<times> m256i \<times> m256i" where
  "query_chunk base pos masks i =
    (let zero = VZERO;
         xP = zero; yP = zero; zP = zero;
         xcoor = VSET164 (one_half ! i);
         ycoor = VSET164 (one_half ! i);
         xP = VXOR xP (VAND (masks ! 0) xcoor);
         yP = VXOR yP (VAND (masks ! 0) ycoor)
     in fold (\<lambda>j (xP, yP, zP).
           (let xcoor = VBROAD64 (lx (base pos j) ! i);
                ycoor = VBROAD64 (ly (base pos j) ! i);
                zcoor = VBROAD64 (lz (base pos j) ! i)
            in (VXOR xP (VAND (masks ! (j + 1)) xcoor),
                VXOR yP (VAND (masks ! (j + 1)) ycoor),
                VXOR zP (VAND (masks ! (j + 1)) zcoor))))
         [0..<8] (xP, yP, zP))"

definition ted_point_query_table_avx2 :: "(nat \<Rightarrow> nat \<Rightarrow> LutPoint) \<Rightarrow> nat \<Rightarrow> m256i \<Rightarrow> ProPoint" where
  "ted_point_query_table_avx2 base pos b =
    (let babs = VABS8 b;
         zero = VZERO;
         mask = query_masks 9 babs zero;
         P = map (query_chunk base pos mask) [0..<4];
         xP = map fst P;
         yP = map (\<lambda>c. fst (snd c)) P;
         zP = map (\<lambda>c. snd (snd c)) P;
         bsign = VSHR b 7;
         bmask = VSUB zero bsign;
         tmp = map (\<lambda>i. VAND (VXOR (xP ! i) (yP ! i)) bmask) [0..<4];
         xP = map (\<lambda>i. VXOR (xP ! i) (tmp ! i)) [0..<4];
         yP = map (\<lambda>i. VXOR (yP ! i) (tmp ! i)) [0..<4];
         rx = lut_conv_coor2mpi29_avx2 xP;
         ry = lut_conv_coor2mpi29_avx2 yP;
         rz = lut_conv_coor2mpi29_avx2 zP;
         t = mpi29_copy_avx2 rz;
         mask = replicate 9 zero;
         t = mpi29_gfp_sub_avx2 mask t;
         (rz, t) = mpi29_cswap_avx2 rz t bsign
     in \<lparr>px = rx, py = ry, pz = rz\<rparr>)"

text \<open>\<open>ted_conv_scalar2nibble_avx2\<close>, first loop: the 64 unsigned nibbles.\<close>

definition scalar_nibbles :: "m256i list \<Rightarrow> m256i list" where
  "scalar_nibbles k =
    (let mask4 = VSET164 0x0F
     in concat (map (\<lambda>i.
          [VAND (k ! i) mask4, VAND (VSHR (k ! i) 4) mask4,
           VAND (VSHR (k ! i) 8) mask4, VAND (VSHR (k ! i) 12) mask4,
           VAND (VSHR (k ! i) 16) mask4, VAND (VSHR (k ! i) 20) mask4,
           VAND (VSHR (k ! i) 24) mask4, VAND (VSHR (k ! i) 28) mask4]) [0..<8]))"

text \<open>Second loop: the entries but the last are recentred with a running carry; the last
  entry (\<open>e[63]\<close>) only receives the carry.  The recursion walks the array from index 0.\<close>

fun nibble_recode :: "m256i list \<Rightarrow> m256i \<Rightarrow> m256i list" where
  "nibble_recode [] carry = []"
| "nibble_recode [e63] carry =
    (let mask8 = VSET164 0xFF;
         e63 = VADD e63 carry;
         e63 = VAND e63 mask8
     in [e63])"
| "nibble_recode (ei # es) carry =
    (let eight = VSET164 8;
         mask8 = VSET164 0xFF;
         ei = VADD ei carry;
         carry = VADD ei eight;
         carry = VSHR carry 4;
         ei = VSUB ei (VSHL carry 4);
         ei = VAND ei mask8
     in ei # nibble_recode es carry)"

definition ted_conv_scalar2nibble_avx2 :: "m256i list \<Rightarrow> m256i list" where
  "ted_conv_scalar2nibble_avx2 k = nibble_recode (scalar_nibbles k) VZERO"

text \<open>The two table loops of \<open>ted_mul_fixbase_avx2\<close> over the odd and the even nibble
  indices: the state is the accumulator \<open>h\<close> and the point \<open>r\<close> last read from the table.\<close>

fun fixbase_loop :: "(nat \<Rightarrow> nat \<Rightarrow> LutPoint) \<Rightarrow> m256i list \<Rightarrow> nat list \<Rightarrow> ExtPoint \<times> ProPoint
    \<Rightarrow> ExtPoint \<times> ProPoint" where
  "fixbase_loop base e [] st = st"
| "fixbase_loop base e (i # idx) (h, r) =
    (let r = ted_point_query_table_avx2 base (i div 2) (e ! i);
         h = ted_point_add_avx2 h r
     in fixbase_loop base e idx (h, r))"

text \<open>The result point \<open>r\<close> is uninitialised storage of the caller; the first table query
  overwrites all of it, and the model starts it as zero.  Only \<open>y\<close> and \<open>z\<close> are
  copied from the accumulator at the end.\<close>

definition ted_mul_fixbase_avx2 :: "(nat \<Rightarrow> nat \<Rightarrow> LutPoint) \<Rightarrow> m256i list \<Rightarrow> ProPoint" where
  "ted_mul_fixbase_avx2 base k =
    (let r = \<lparr>px = replicate 9 VZERO, py = replicate 9 VZERO, pz = replicate 9 VZERO\<rparr>;
         kp = prune_scalar k;
         e = ted_conv_scalar2nibble_avx2 kp;
         h = ted_point_init_ext_avx2;
         (h, r) = fixbase_loop base e (map (\<lambda>n. 2 * n + 1) [0..<32]) (h, r);
         h = ted_point_dbl_avx2 h;
         h = ted_point_dbl_avx2 h;
         h = ted_point_dbl_avx2 h;
         h = ted_point_dbl_avx2 h;
         (h, r) = fixbase_loop base e (map (\<lambda>n. 2 * n) [0..<32]) (h, r);
         r = r\<lparr>py := mpi29_copy_avx2 (ey h)\<rparr>;
         r = r\<lparr>pz := mpi29_copy_avx2 (ez h)\<rparr>
     in r)"

text \<open>\<open>mon_mul_fixbase_avx2\<close> (moncurve.c): the fixed-base multiplication on the twisted
  Edwards curve, then \<open>u = (z+y)/(z-y)\<close>.\<close>

definition mon_mul_fixbase_avx2 :: "(nat \<Rightarrow> nat \<Rightarrow> LutPoint) \<Rightarrow> m256i list \<Rightarrow> mpi29" where
  "mon_mul_fixbase_avx2 base k =
    (let p = ted_mul_fixbase_avx2 base k;
         p = p\<lparr>px := mpi29_gfp_sbc_avx2 (pz p) (py p)\<rparr>;
         p = p\<lparr>px := mpi29_gfp_inv_avx2 (px p)\<rparr>;
         t = mpi29_gfp_add_avx2 (pz p) (py p)
     in mpi29_gfp_mul_avx2 t (px p))"

section \<open>Diffie-Hellman functions (ecdh.c)\<close>

definition final_modp :: "mpi29 \<Rightarrow> mpi29" where
  "final_modp a =
    (let
         a0 = a ! 0; a1 = a ! 1; a2 = a ! 2; a3 = a ! 3; a4 = a ! 4; a5 = a ! 5; a6 = a ! 6;
         a7 = a ! 7; a8 = a ! 8; VMASK23 = VSET164 0x7FFFFF; VMASK29 = VSET164 MASK29;
         V19 = VSET164 19; temp = VSHR a8 23; a8 = VAND a8 VMASK23;
         a0 = VADD a0 (VMUL temp V19); a1 = VADD a1 (VSHR a0 BITS29); a0 = VAND a0 VMASK29;
         a2 = VADD a2 (VSHR a1 BITS29); a1 = VAND a1 VMASK29; a3 = VADD a3 (VSHR a2 BITS29);
         a2 = VAND a2 VMASK29; a4 = VADD a4 (VSHR a3 BITS29); a3 = VAND a3 VMASK29;
         a5 = VADD a5 (VSHR a4 BITS29); a4 = VAND a4 VMASK29; a6 = VADD a6 (VSHR a5 BITS29);
         a5 = VAND a5 VMASK29; a7 = VADD a7 (VSHR a6 BITS29); a6 = VAND a6 VMASK29;
         a8 = VADD a8 (VSHR a7 BITS29); a7 = VAND a7 VMASK29; temp = VSHR a8 23;
         a8 = VAND a8 VMASK23; a0 = VADD a0 (VMUL temp V19); a1 = VADD a1 (VSHR a0 BITS29);
         a0 = VAND a0 VMASK29; a2 = VADD a2 (VSHR a1 BITS29); a1 = VAND a1 VMASK29;
         a3 = VADD a3 (VSHR a2 BITS29); a2 = VAND a2 VMASK29; a4 = VADD a4 (VSHR a3 BITS29);
         a3 = VAND a3 VMASK29; a5 = VADD a5 (VSHR a4 BITS29); a4 = VAND a4 VMASK29;
         a6 = VADD a6 (VSHR a5 BITS29); a5 = VAND a5 VMASK29; a7 = VADD a7 (VSHR a6 BITS29);
         a6 = VAND a6 VMASK29; a8 = VADD a8 (VSHR a7 BITS29); a7 = VAND a7 VMASK29
     in [a0, a1, a2, a3, a4, a5, a6, a7, a8])"

definition keygen :: "(nat \<Rightarrow> nat \<Rightarrow> LutPoint) \<Rightarrow> m256i list \<Rightarrow> mpi29" where
  "keygen base sk = final_modp (mon_mul_fixbase_avx2 base sk)"

definition sharedsecret :: "m256i list \<Rightarrow> mpi29 \<Rightarrow> mpi29" where
  "sharedsecret ska pkb = final_modp (mon_mul_varbase_avx2 ska pkb)"

section \<open>Predicates used in the statements\<close>

text \<open>Per limb and lane, the swap computes \<open>x XOR ((x XOR y) AND mask)\<close>.\<close>

definition cswap_word :: "u64 \<Rightarrow> u64 \<Rightarrow> u64 \<Rightarrow> u64" where
  "cswap_word m x y = x XOR ((x XOR y) AND m)"

text \<open>
  Lane \<open>j\<close> of two vectors, of the first \<open>n\<close> elements of two arrays, and of the
  coordinates of two points carries the same values.
\<close>

definition veq :: "lane \<Rightarrow> m256i \<Rightarrow> m256i \<Rightarrow> bool" where
  "veq j x y = (x j = y j)"

definition lane_eq :: "nat \<Rightarrow> lane \<Rightarrow> m256i list \<Rightarrow> m256i list \<Rightarrow> bool" where
  "lane_eq n j a a' = (\<forall>i<n. veq j (a ! i) (a' ! i))"

definition pp_eq :: "lane \<Rightarrow> ProPoint \<Rightarrow> ProPoint \<Rightarrow> bool" where
  "pp_eq j p p' = (lane_eq 9 j (px p) (px p') \<and> lane_eq 9 j (py p) (py p') \<and> lane_eq 9 j (pz p) (pz p'))"

definition ext_eq :: "lane \<Rightarrow> ExtPoint \<Rightarrow> ExtPoint \<Rightarrow> bool" where
  "ext_eq j p p' = (lane_eq 9 j (ex p) (ex p') \<and> lane_eq 9 j (ey p) (ey p') \<and> lane_eq 9 j (ez p) (ez p')
     \<and> lane_eq 9 j (ee p) (ee p') \<and> lane_eq 9 j (eh p) (eh p'))"

text \<open>The relations lifted to pairs, the relation that relates everything (for data that
  does not influence a result), and a marker \<open>lrel\<close> that fixes the relation a rule is
  applied for.\<close>

definition prod_eq :: "(lane \<Rightarrow> 'a \<Rightarrow> 'a \<Rightarrow> bool) \<Rightarrow> (lane \<Rightarrow> 'b \<Rightarrow> 'b \<Rightarrow> bool) \<Rightarrow> lane \<Rightarrow> 'a \<times> 'b \<Rightarrow> 'a \<times> 'b \<Rightarrow> bool" where
  "prod_eq R S j u v = (R j (fst u) (fst v) \<and> S j (snd u) (snd v))"

definition any_eq :: "lane \<Rightarrow> 'a \<Rightarrow> 'a \<Rightarrow> bool" where
  "any_eq j x y = True"

definition lrel :: "lane \<Rightarrow> (lane \<Rightarrow> 'a \<Rightarrow> 'a \<Rightarrow> bool) \<Rightarrow> 'a \<Rightarrow> 'a \<Rightarrow> bool" where
  "lrel j R x y = R j x y"

fun st_eq :: "lane \<Rightarrow> ProPoint \<times> ProPoint \<times> m256i \<Rightarrow> ProPoint \<times> ProPoint \<times> m256i \<Rightarrow> bool" where
  "st_eq j (p1, p2, s) (p1', p2', s') = (pp_eq j p1 p1' \<and> pp_eq j p2 p2' \<and> veq j s s')"

definition trip_eq :: "lane \<Rightarrow> m256i \<times> m256i \<times> m256i \<Rightarrow> m256i \<times> m256i \<times> m256i \<Rightarrow> bool" where
  "trip_eq j u v = (veq j (fst u) (fst v) \<and> veq j (fst (snd u)) (fst (snd v)) \<and> veq j (snd (snd u)) (snd (snd v)))"

text \<open>A run in which every lane carries the inputs of lane \<open>j\<close>: the first \<open>n\<close>
  elements of the array, each with the value of lane \<open>j\<close> in all four lanes.\<close>

definition only_lane :: "lane \<Rightarrow> nat \<Rightarrow> m256i list \<Rightarrow> m256i list" where
  "only_lane j n a = map (\<lambda>i. (\<lambda>l. (a ! i) j)) [0..<n]"

text \<open>
  The ladder as the specification words it: \<open>b\<close> is bit \<open>i\<close> of the pruned scalar (0 or 1
  in each lane) and the flag \<open>s\<close> is the exclusive or of two such bits.  Everything else is
  as in \<open>mon_ladder_loop\<close> and \<open>mon_mul_varbase_avx2\<close>.
\<close>

definition scalar_bit :: "m256i list \<Rightarrow> nat \<Rightarrow> m256i" where
  "scalar_bit kp i = VAND (VSHR (kp ! (i div 32)) (i mod 32)) (VSET164 1)"

fun bit_ladder_loop :: "m256i list \<Rightarrow> mpi29 \<Rightarrow> nat \<Rightarrow> ProPoint \<times> ProPoint \<times> m256i
    \<Rightarrow> ProPoint \<times> ProPoint \<times> m256i" where
  "bit_ladder_loop kp x 0 st = st"
| "bit_ladder_loop kp x (Suc i) (p1, p2, s) =
    (let b = scalar_bit kp i;
         s = VXOR s b;
         (p1, p2) = mon_cswap_point_avx2 p1 p2 s;
         (p1, p2) = mon_ladder_step_avx2 p1 p2 x;
         s = b
     in bit_ladder_loop kp x i (p1, p2, s))"

definition bit_mul_varbase :: "m256i list \<Rightarrow> mpi29 \<Rightarrow> mpi29" where
  "bit_mul_varbase k x =
    (let s = VZERO;
         kp = prune_scalar k;
         z9 = replicate 9 VZERO;
         p1 = \<lparr>px = z9[0 := VSET164 1], py = z9, pz = z9\<rparr>;
         p2 = \<lparr>px = map (\<lambda>i. x ! i) [0..<9], py = z9, pz = z9[0 := VSET164 1]\<rparr>;
         (p1, p2, s) = bit_ladder_loop kp x 255 (p1, p2, s);
         (p1, p2) = mon_cswap_point_avx2 p1 p2 s;
         p2 = p2\<lparr>py := mpi29_gfp_inv_avx2 (pz p1)\<rparr>
     in mpi29_gfp_mul_avx2 (py p2) (px p1))"

text \<open>The ladder state with the flag reduced to its least significant bit in each lane.\<close>

fun mask_flag :: "ProPoint \<times> ProPoint \<times> m256i \<Rightarrow> ProPoint \<times> ProPoint \<times> m256i" where
  "mask_flag (p1, p2, s) = (p1, p2, VAND s (VSET164 1))"

text \<open>
  Signed-nibble recoding.  A digit is the low byte of its lane, read as a signed 8-bit
  integer.  The scalar of lane \<open>j\<close> is the 256-bit integer whose 32-bit words are the
  lanes of \<open>k[0..7]\<close>; it is clamped when these are 32-bit values, the low three bits of
  word 0 are clear, and in word 7 bit 31 is clear and bit 30 is set.
\<close>

definition nibble_val :: "u64 \<Rightarrow> int" where
  "nibble_val w = sint (ucast w :: 8 word)"

definition scalar_value :: "lane \<Rightarrow> m256i list \<Rightarrow> int" where
  "scalar_value j k = (\<Sum>i<8. uint ((k ! i) j) * 2 ^ (32 * i))"

definition scalar_clamped :: "lane \<Rightarrow> m256i list \<Rightarrow> bool" where
  "scalar_clamped j k =
     ((\<forall>i<8. (k ! i) j \<le> 0xFFFFFFFF) \<and> (k ! 0) j AND 7 = 0 \<and> (k ! 7) j AND 0xC0000000 = 0x40000000)"

text \<open>
  Limb bounds.  \<open>vub x n\<close>: every lane of the vector \<open>x\<close> is at most \<open>n\<close> as an unsigned
  64-bit number; \<open>limbs_ub a bs\<close>: limb \<open>i\<close> of the field element \<open>a\<close> is bounded by
  \<open>bs ! i\<close> in every lane, for \<open>i = 0..8\<close>.  A field element is reduced when all nine limbs
  are at most \<open>2^29 - 1 = 536870911\<close>.
\<close>

definition vub :: "m256i \<Rightarrow> nat \<Rightarrow> bool" where
  "vub x n = (\<forall>j. unat (x j) \<le> n)"

definition limbs_ub :: "mpi29 \<Rightarrow> nat list \<Rightarrow> bool" where
  "limbs_ub a bs = (\<forall>i<9. vub (a ! i) (bs ! i))"

definition reduced :: "mpi29 \<Rightarrow> bool" where
  "reduced a = limbs_ub a (replicate 9 536870911)"

text \<open>
  The form in which the multiplications and squarings leave their result: limbs 1 to 8 at
  most \<open>2^29 - 1\<close> and limb 0, which receives the folded carry last, at most
  \<open>2^29 - 1 + 9793 * 1216 = 548779199\<close>.
\<close>

definition nearly_reduced :: "mpi29 \<Rightarrow> bool" where
  "nearly_reduced a = limbs_ub a (548779199 # replicate 8 536870911)"

text \<open>The largest unsigned 64-bit and 32-bit numbers.\<close>

abbreviation (input) U64 :: nat where "U64 \<equiv> 18446744073709551615"

abbreviation (input) U32 :: nat where "U32 \<equiv> 4294967295"

text \<open>
  Two identity wrappers that keep the goal in a fixed shape while a bound is pushed through
  a chain of \<open>let\<close> bindings: \<open>holds\<close> marks the property of the remaining program, \<open>leq\<close> a
  numeric side condition.
\<close>

definition holds :: "('a \<Rightarrow> bool) \<Rightarrow> 'a \<Rightarrow> bool" where
  "holds P x = P x"

definition leq :: "nat \<Rightarrow> nat \<Rightarrow> bool" where
  "leq a b = (a \<le> b)"

text \<open>The integer represented in lane \<open>j\<close> by nine limbs in radix \<open>2^29\<close>.\<close>

definition mpi_value :: "lane \<Rightarrow> mpi29 \<Rightarrow> nat" where
  "mpi_value j a = sum_list (map (\<lambda>i. unat ((a ! i) j) * 2 ^ (29 * i)) [0..<9])"

text \<open>The state of the ladder loop with nearly reduced \<open>x\<close> and \<open>z\<close> coordinates.\<close>

fun ladder_inv :: "ProPoint \<times> ProPoint \<times> m256i \<Rightarrow> bool" where
  "ladder_inv (p1, p2, s) =
     (nearly_reduced (px p1) \<and> nearly_reduced (pz p1) \<and> nearly_reduced (px p2) \<and> nearly_reduced (pz p2))"

section \<open>Auxiliary facts about arrays and vectors\<close>

lemma upt9: "[0..<9] = [0, 1, 2, 3, 4, 5, 6, 7, 8]"
  by (simp add: upt_rec numeral_eq_Suc del: upt_Suc)

lemma map_nth9: "length xs = 9 \<Longrightarrow> map (\<lambda>i. xs ! i) [0..<9] = xs"
  using map_nth [of xs] by simp

lemma list9:
  "length xs = 9 \<Longrightarrow> [xs ! 0, xs ! 1, xs ! 2, xs ! 3, xs ! 4, xs ! 5, xs ! 6, xs ! 7, xs ! 8] = xs"
  using map_nth9 [of xs] by (simp add: upt9)

lemma list9':
  "length xs = 9 \<Longrightarrow> [xs ! 0, xs ! Suc 0, xs ! 2, xs ! 3, xs ! 4, xs ! 5, xs ! 6, xs ! 7, xs ! 8] = xs"
  using list9 [of xs] by simp

lemma upt8: "[0..<8] = [0, 1, 2, 3, 4, 5, 6, 7]"
  by (simp add: upt_rec numeral_eq_Suc del: upt_Suc)

lemma upt4: "[0..<4] = [0, 1, 2, 3]"
  by (simp add: upt_rec numeral_eq_Suc del: upt_Suc)

lemma all_less9:
  "(\<forall>i<9. P i) = (P 0 \<and> P 1 \<and> P 2 \<and> P 3 \<and> P 4 \<and> P 5 \<and> P 6 \<and> P 7 \<and> P (8::nat))"
proof -
  have "(\<forall>i<9. P i) = (\<forall>i\<in>set [0..<9]. P i)" by auto
  also have "\<dots> = (P 0 \<and> P 1 \<and> P 2 \<and> P 3 \<and> P 4 \<and> P 5 \<and> P 6 \<and> P 7 \<and> P 8)"
    unfolding upt9 by simp
  finally show ?thesis .
qed

lemma all_less8:
  "(\<forall>i<8. P i) = (P 0 \<and> P 1 \<and> P 2 \<and> P 3 \<and> P 4 \<and> P 5 \<and> P 6 \<and> P (7::nat))"
proof -
  have "(\<forall>i<8. P i) = (\<forall>i\<in>set [0..<8]. P i)" by auto
  also have "\<dots> = (P 0 \<and> P 1 \<and> P 2 \<and> P 3 \<and> P 4 \<and> P 5 \<and> P 6 \<and> P 7)"
    unfolding upt8 by simp
  finally show ?thesis .
qed

text \<open>Evaluation of a \<open>let\<close> whose bound vector has been computed.\<close>

lemma Let_val: "Let (\<lambda>j::lane. c) f = f (\<lambda>j. c)"
  by simp

lemmas vec_defs = VADD_def VSUB_def VMUL_def VMAC_def VXOR_def VAND_def VOR_def VSHR_def VSHL_def
  VSET164_def VZERO_def

section \<open>Conditional swap\<close>

lemma cswap_word_0: "cswap_word 0 x y = x"
  by (simp add: cswap_word_def)

lemma cswap_word_1: "cswap_word (- 1) x y = y"
  by (simp add: cswap_word_def)

lemma cswap_word_twice: "cswap_word m (cswap_word m x y) (cswap_word m y x) = x"
  unfolding cswap_word_def by (rule bit_eqI) (auto simp: bit_simps)

lemma cswap_nth:
  "mpi29_cswap_avx2 r a b =
     (map (\<lambda>i. (\<lambda>j. cswap_word (- b j) ((r ! i) j) ((a ! i) j))) [0..<9],
      map (\<lambda>i. (\<lambda>j. cswap_word (- b j) ((a ! i) j) ((r ! i) j))) [0..<9])"
  by (simp add: mpi29_cswap_avx2_def Let_def vec_defs upt9 cswap_word_def xor.commute)

lemma cswap_zero:
  "length r = 9 \<Longrightarrow> length a = 9 \<Longrightarrow> mpi29_cswap_avx2 r a (VSET164 0) = (r, a)"
  by (simp add: cswap_nth VSET164_def map_nth9 cswap_word_0)

lemma cswap_one:
  "length r = 9 \<Longrightarrow> length a = 9 \<Longrightarrow> mpi29_cswap_avx2 r a (VSET164 1) = (a, r)"
  by (simp add: cswap_nth VSET164_def map_nth9 cswap_word_1)

lemma cswap_twice:
  "length r = 9 \<Longrightarrow> length a = 9 \<Longrightarrow>
     (case mpi29_cswap_avx2 r a b of (r', a') \<Rightarrow> mpi29_cswap_avx2 r' a' b) = (r, a)"
  apply (simp add: cswap_nth [of r a])
  apply (subst cswap_nth)
  apply (simp add: upt9 cswap_word_twice list9')
  done

text \<open>
  Claim C9.  For all field elements \<open>r\<close> and \<open>a\<close> (arrays of nine vectors):
  \<open>mpi29_cswap_avx2\<close> with flag 0 in every lane leaves \<open>r\<close> and \<open>a\<close> unchanged, with
  flag 1 in every lane it exchanges their contents, and applying it twice with the same
  flag vector \<open>b\<close> (whatever its value, so in particular 0 or 1 in each lane) restores
  the original pair.
\<close>

theorem mpi29_cswap_flags:
  "length r = 9 \<Longrightarrow> length a = 9 \<Longrightarrow>
     mpi29_cswap_avx2 r a (VSET164 0) = (r, a) \<and>
     mpi29_cswap_avx2 r a (VSET164 1) = (a, r) \<and>
     (case mpi29_cswap_avx2 r a b of (r', a') \<Rightarrow> mpi29_cswap_avx2 r' a' b) = (r, a)"
  by (simp only: cswap_zero cswap_one cswap_twice)

theorem mpi29_cswap_flags_witness:
  "length (replicate 9 (VSET164 5)) = 9 \<and> length (replicate 9 (VSET164 7)) = 9 \<and>
   mpi29_cswap_avx2 (replicate 9 (VSET164 5)) (replicate 9 (VSET164 7)) (VSET164 0)
     = (replicate 9 (VSET164 5), replicate 9 (VSET164 7)) \<and>
   mpi29_cswap_avx2 (replicate 9 (VSET164 5)) (replicate 9 (VSET164 7)) (VSET164 1)
     = (replicate 9 (VSET164 7), replicate 9 (VSET164 5)) \<and>
   (case mpi29_cswap_avx2 (replicate 9 (VSET164 5)) (replicate 9 (VSET164 7)) (VSET164 1) of
      (r', a') \<Rightarrow> mpi29_cswap_avx2 r' a' (VSET164 1))
     = (replicate 9 (VSET164 5), replicate 9 (VSET164 7))"
proof -
  have l1: "length (replicate 9 (VSET164 5)) = 9" by simp
  have l2: "length (replicate 9 (VSET164 7)) = 9" by simp
  from mpi29_cswap_flags [OF l1 l2, of "VSET164 1"] l1 l2 show ?thesis by blast
qed

section \<open>Lane independence\<close>

lemma lrelI: "R j x y \<Longrightarrow> lrel j R x y" by (simp add: lrel_def)
lemma lrelD: "lrel j R x y \<Longrightarrow> R j x y" by (simp add: lrel_def)

lemma Let_veq: "(\<And>x x'. veq j x x' \<Longrightarrow> lrel j R (f x) (f' x')) \<Longrightarrow> veq j t t' \<Longrightarrow> lrel j R (Let t f) (Let t' f')"
  by simp
lemma Let_lane: "(\<And>x x'. lane_eq n j x x' \<Longrightarrow> lrel j R (f x) (f' x')) \<Longrightarrow> lane_eq n j t t' \<Longrightarrow> lrel j R (Let t f) (Let t' f')"
  by simp
lemma Let_pp: "(\<And>x x'. pp_eq j x x' \<Longrightarrow> lrel j R (f x) (f' x')) \<Longrightarrow> pp_eq j t t' \<Longrightarrow> lrel j R (Let t f) (Let t' f')"
  by simp
lemma Let_ext: "(\<And>x x'. ext_eq j x x' \<Longrightarrow> lrel j R (f x) (f' x')) \<Longrightarrow> ext_eq j t t' \<Longrightarrow> lrel j R (Let t f) (Let t' f')"
  by simp
lemma Let_any: "(\<And>x x'. lrel j R (f x) (f' x')) \<Longrightarrow> lrel j R (Let (t::mpi29 list) f) (Let t' f')"
  by simp
lemma case_prod_rel: "(\<And>a b a' b'. P j a a' \<Longrightarrow> Q j b b' \<Longrightarrow> lrel j R (f a b) (f' a' b')) \<Longrightarrow> prod_eq P Q j t t' \<Longrightarrow>
   lrel j R (case t of (a, b) \<Rightarrow> f a b) (case t' of (a, b) \<Rightarrow> f' a b)"
  by (cases t; cases t') (simp add: prod_eq_def)

lemma Let_prod: "(\<And>a b a' b'. P j a a' \<Longrightarrow> Q j b b' \<Longrightarrow> lrel j R (f a b) (f' a' b')) \<Longrightarrow> prod_eq P Q j t t' \<Longrightarrow>
   lrel j R (Let t (case_prod f)) (Let t' (case_prod f'))"
  by (cases t; cases t') (simp add: prod_eq_def)
lemma prod_eqI: "R j a a' \<Longrightarrow> S j b b' \<Longrightarrow> prod_eq R S j (a, b) (a', b')" by (simp add: prod_eq_def)
lemma any_eqI: "any_eq j x y" by (simp add: any_eq_def)

lemma veq_nth: "lane_eq n j a a' \<Longrightarrow> i < n \<Longrightarrow> veq j (a ! i) (a' ! i)"
  by (simp add: lane_eq_def)

lemma veq_ops:
  "veq j x x' \<Longrightarrow> veq j y y' \<Longrightarrow> veq j (VADD x y) (VADD x' y')"
  "veq j x x' \<Longrightarrow> veq j y y' \<Longrightarrow> veq j (VSUB x y) (VSUB x' y')"
  "veq j x x' \<Longrightarrow> veq j y y' \<Longrightarrow> veq j (VMUL x y) (VMUL x' y')"
  "veq j z z' \<Longrightarrow> veq j x x' \<Longrightarrow> veq j y y' \<Longrightarrow> veq j (VMAC z x y) (VMAC z' x' y')"
  "veq j x x' \<Longrightarrow> veq j y y' \<Longrightarrow> veq j (VXOR x y) (VXOR x' y')"
  "veq j x x' \<Longrightarrow> veq j y y' \<Longrightarrow> veq j (VAND x y) (VAND x' y')"
  "veq j x x' \<Longrightarrow> veq j y y' \<Longrightarrow> veq j (VOR x y) (VOR x' y')"
  "veq j x x' \<Longrightarrow> veq j (VSHR x n) (VSHR x' n)"
  "veq j x x' \<Longrightarrow> veq j (VSHL x n) (VSHL x' n)"
  "veq j (VSET164 c) (VSET164 c)"
  "veq j VZERO VZERO"
  by (simp_all add: veq_def vec_defs)

lemma lane_eq_list9:
  "veq j r0 s0 \<Longrightarrow> veq j r1 s1 \<Longrightarrow> veq j r2 s2 \<Longrightarrow> veq j r3 s3 \<Longrightarrow> veq j r4 s4 \<Longrightarrow>
   veq j r5 s5 \<Longrightarrow> veq j r6 s6 \<Longrightarrow> veq j r7 s7 \<Longrightarrow> veq j r8 s8 \<Longrightarrow>
   lane_eq 9 j [r0, r1, r2, r3, r4, r5, r6, r7, r8] [s0, s1, s2, s3, s4, s5, s6, s7, s8]"
  by (simp add: lane_eq_def nth_Cons' )

lemmas straight = Let_veq veq_ops lane_eq_list9 veq_nth [where n = 9] lrelI

lemma mul_lane: "lane_eq 9 j a a' \<Longrightarrow> lane_eq 9 j b b' \<Longrightarrow> lane_eq 9 j (mpi29_gfp_mul_avx2 a b) (mpi29_gfp_mul_avx2 a' b')"
  unfolding mpi29_gfp_mul_avx2_def
  by (rule lrelD [where R = "lane_eq 9"]) (intro straight; (assumption | simp))
lemma sqr_lane: "lane_eq 9 j a a' \<Longrightarrow> lane_eq 9 j (mpi29_gfp_sqr_avx2 a) (mpi29_gfp_sqr_avx2 a')"
  unfolding mpi29_gfp_sqr_avx2_def
  by (rule lrelD [where R = "lane_eq 9"]) (intro straight; (assumption | simp))
lemma add_lane: "lane_eq 9 j a a' \<Longrightarrow> lane_eq 9 j b b' \<Longrightarrow> lane_eq 9 j (mpi29_gfp_add_avx2 a b) (mpi29_gfp_add_avx2 a' b')"
  unfolding mpi29_gfp_add_avx2_def
  by (rule lrelD [where R = "lane_eq 9"]) (intro straight; (assumption | simp))
lemma sub_lane: "lane_eq 9 j a a' \<Longrightarrow> lane_eq 9 j b b' \<Longrightarrow> lane_eq 9 j (mpi29_gfp_sub_avx2 a b) (mpi29_gfp_sub_avx2 a' b')"
  unfolding mpi29_gfp_sub_avx2_def
  by (rule lrelD [where R = "lane_eq 9"]) (intro straight; (assumption | simp))
lemma sbc_lane: "lane_eq 9 j a a' \<Longrightarrow> lane_eq 9 j b b' \<Longrightarrow> lane_eq 9 j (mpi29_gfp_sbc_avx2 a b) (mpi29_gfp_sbc_avx2 a' b')"
  unfolding mpi29_gfp_sbc_avx2_def
  by (rule lrelD [where R = "lane_eq 9"]) (intro straight; (assumption | simp))
lemma mul29_lane: "lane_eq 9 j a a' \<Longrightarrow> lane_eq 9 j (mpi29_gfp_mul29_avx2 a b) (mpi29_gfp_mul29_avx2 a' b)"
  unfolding mpi29_gfp_mul29_avx2_def
  by (rule lrelD [where R = "lane_eq 9"]) (intro straight; (assumption | simp))
lemma final_modp_lane: "lane_eq 9 j a a' \<Longrightarrow> lane_eq 9 j (final_modp a) (final_modp a')"
  unfolding final_modp_def
  by (rule lrelD [where R = "lane_eq 9"]) (intro straight; (assumption | simp))
lemma copy_lane: "lane_eq 9 j a a' \<Longrightarrow> lane_eq 9 j (mpi29_copy_avx2 a) (mpi29_copy_avx2 a')"
  unfolding mpi29_copy_avx2_def
  by (intro straight; (assumption | simp))
lemma lane_eq_list9x2:
  "veq j r0 s0 \<Longrightarrow> veq j r1 s1 \<Longrightarrow> veq j r2 s2 \<Longrightarrow> veq j r3 s3 \<Longrightarrow> veq j r4 s4 \<Longrightarrow>
   veq j r5 s5 \<Longrightarrow> veq j r6 s6 \<Longrightarrow> veq j r7 s7 \<Longrightarrow> veq j r8 s8 \<Longrightarrow>
   veq j a0 b0 \<Longrightarrow> veq j a1 b1 \<Longrightarrow> veq j a2 b2 \<Longrightarrow> veq j a3 b3 \<Longrightarrow> veq j a4 b4 \<Longrightarrow>
   veq j a5 b5 \<Longrightarrow> veq j a6 b6 \<Longrightarrow> veq j a7 b7 \<Longrightarrow> veq j a8 b8 \<Longrightarrow>
   prod_eq (lane_eq 9) (lane_eq 9) j ([r0, r1, r2, r3, r4, r5, r6, r7, r8], [a0, a1, a2, a3, a4, a5, a6, a7, a8])
     ([s0, s1, s2, s3, s4, s5, s6, s7, s8], [b0, b1, b2, b3, b4, b5, b6, b7, b8])"
  by (simp add: lane_eq_def nth_Cons' prod_eq_def)
lemma cswap_lane: "lane_eq 9 j r r' \<Longrightarrow> lane_eq 9 j a a' \<Longrightarrow> veq j b b' \<Longrightarrow> 
   prod_eq (lane_eq 9) (lane_eq 9) j (mpi29_cswap_avx2 r a b) (mpi29_cswap_avx2 r' a' b')"
  unfolding mpi29_cswap_avx2_def
  by (rule lrelD [where R = "prod_eq (lane_eq 9) (lane_eq 9)"]) (intro Let_veq veq_ops lane_eq_list9x2 veq_nth [where n = 9] lrelI; (assumption | simp))

lemma sqr_pow_lane: "lane_eq 9 j a a' \<Longrightarrow> lane_eq 9 j ((mpi29_gfp_sqr_avx2 ^^ n) a) ((mpi29_gfp_sqr_avx2 ^^ n) a')"
  by (induction n) (simp_all add: sqr_lane)

lemmas field_lane = mul_lane sqr_lane add_lane sub_lane sbc_lane mul29_lane copy_lane sqr_pow_lane

lemma inv_lane: "lane_eq 9 j a a' \<Longrightarrow> lane_eq 9 j (mpi29_gfp_inv_avx2 a) (mpi29_gfp_inv_avx2 a')"
  unfolding mpi29_gfp_inv_avx2_def
  by (rule lrelD [where R = "lane_eq 9"]) (intro Let_lane [where n = 9] field_lane lrelI; assumption)

lemma pp_sel: "pp_eq j p p' \<Longrightarrow> lane_eq 9 j (px p) (px p')" "pp_eq j p p' \<Longrightarrow> lane_eq 9 j (py p) (py p')" "pp_eq j p p' \<Longrightarrow> lane_eq 9 j (pz p) (pz p')"
  by (simp_all add: pp_eq_def)
lemma pp_upd: 
  "pp_eq j p p' \<Longrightarrow> lane_eq 9 j v v' \<Longrightarrow> pp_eq j (p\<lparr>px := v\<rparr>) (p'\<lparr>px := v'\<rparr>)"
  "pp_eq j p p' \<Longrightarrow> lane_eq 9 j v v' \<Longrightarrow> pp_eq j (p\<lparr>py := v\<rparr>) (p'\<lparr>py := v'\<rparr>)"
  "pp_eq j p p' \<Longrightarrow> lane_eq 9 j v v' \<Longrightarrow> pp_eq j (p\<lparr>pz := v\<rparr>) (p'\<lparr>pz := v'\<rparr>)"
  by (simp_all add: pp_eq_def)

lemma step_log_lane: "pp_eq j p p' \<Longrightarrow> pp_eq j q q' \<Longrightarrow> lane_eq 9 j xd xd' \<Longrightarrow>
   prod_eq pp_eq (prod_eq pp_eq any_eq) j (mon_ladder_step_log p q xd) (mon_ladder_step_log p' q' xd')"
  unfolding mon_ladder_step_log_def
  by (rule lrelD [where R = "prod_eq pp_eq (prod_eq pp_eq any_eq)"]) (intro Let_pp Let_any pp_upd field_lane pp_sel lrelI prod_eqI any_eqI; assumption)

lemma step_lane: "pp_eq j p p' \<Longrightarrow> pp_eq j q q' \<Longrightarrow> lane_eq 9 j xd xd' \<Longrightarrow>
   prod_eq pp_eq pp_eq j (mon_ladder_step_avx2 p q xd) (mon_ladder_step_avx2 p' q' xd')"
  using step_log_lane [of j p p' q q' xd xd']
  by (auto simp: mon_ladder_step_avx2_def prod_eq_def split: prod.splits)

lemma cswap_point_lane:  "pp_eq j p p' \<Longrightarrow> pp_eq j q q' \<Longrightarrow> veq j b b' \<Longrightarrow>
   prod_eq pp_eq pp_eq j (mon_cswap_point_avx2 p q b) (mon_cswap_point_avx2 p' q' b')"
  unfolding mon_cswap_point_avx2_def
  by (rule lrelD [where R = "prod_eq pp_eq pp_eq"])
    (intro Let_veq Let_prod [where P = "lane_eq 9" and Q = "lane_eq 9"] cswap_lane pp_upd pp_sel veq_ops lrelI prod_eqI; assumption)


lemma loop_lane: "lane_eq 8 j kp kp' \<Longrightarrow> lane_eq 9 j x x' \<Longrightarrow> st_eq j st st' \<Longrightarrow> n \<le> 256 \<Longrightarrow>
   st_eq j (mon_ladder_loop kp x n st) (mon_ladder_loop kp' x' n st')"
proof (induction n arbitrary: st st')
  case 0
  then show ?case by simp
next
  case (Suc i)
  obtain p1 p2 s where st: "st = (p1, p2, s)" by (cases st)
  obtain p1' p2' s' where st': "st' = (p1', p2', s')" by (cases st')
  from Suc.prems st st' have e: "pp_eq j p1 p1'" "pp_eq j p2 p2'" "veq j s s'" by simp_all
  from Suc.prems have "i div 32 < 8" by simp
  with Suc.prems have b: "veq j (VSHR (kp ! (i div 32)) (i mod 32)) (VSHR (kp' ! (i div 32)) (i mod 32))"
    by (intro veq_ops veq_nth [where n = 8]) 
  let ?b = "VSHR (kp ! (i div 32)) (i mod 32)" and ?b' = "VSHR (kp' ! (i div 32)) (i mod 32)"
  have c: "prod_eq pp_eq pp_eq j (mon_cswap_point_avx2 p1 p2 (VXOR s ?b)) (mon_cswap_point_avx2 p1' p2' (VXOR s' ?b'))"
    by (rule cswap_point_lane [OF e(1) e(2) veq_ops(5) [OF e(3) b]])
  obtain q1 q2 where q: "mon_cswap_point_avx2 p1 p2 (VXOR s ?b) = (q1, q2)" by (cases "mon_cswap_point_avx2 p1 p2 (VXOR s ?b)")
  obtain q1' q2' where q': "mon_cswap_point_avx2 p1' p2' (VXOR s' ?b') = (q1', q2')" by (cases "mon_cswap_point_avx2 p1' p2' (VXOR s' ?b')")
  from c q q' have qe: "pp_eq j q1 q1'" "pp_eq j q2 q2'" by (simp_all add: prod_eq_def)
  have d: "prod_eq pp_eq pp_eq j (mon_ladder_step_avx2 q1 q2 x) (mon_ladder_step_avx2 q1' q2' x')"
    by (rule step_lane [OF qe Suc.prems(2)])
  obtain r1 r2 where r: "mon_ladder_step_avx2 q1 q2 x = (r1, r2)" by (cases "mon_ladder_step_avx2 q1 q2 x")
  obtain r1' r2' where r': "mon_ladder_step_avx2 q1' q2' x' = (r1', r2')" by (cases "mon_ladder_step_avx2 q1' q2' x'")
  from d r r' have re: "pp_eq j r1 r1'" "pp_eq j r2 r2'" by (simp_all add: prod_eq_def)
  have "st_eq j (mon_ladder_loop kp x i (r1, r2, ?b)) (mon_ladder_loop kp' x' i (r1', r2', ?b'))"
    using Suc.prems re b by (intro Suc.IH) simp_all
  then show ?case
    by (simp add: st st' q q' r r' Let_def)
qed


lemma prune_lane: "lane_eq 8 j k k' \<Longrightarrow> lane_eq 8 j (prune_scalar k) (prune_scalar k')"
  by (simp add: prune_scalar_def Let_def lane_eq_def veq_def vec_defs nth_list_update)

lemma lane_eq_refl: "lane_eq n j a a"
  by (simp add: lane_eq_def veq_def)

lemma lane_eq_map_nth: "lane_eq 9 j x x' \<Longrightarrow> lane_eq 9 j (map (\<lambda>i. x ! i) [0..<9]) (map (\<lambda>i. x' ! i) [0..<9])"
  by (simp add: lane_eq_def del: upt_Suc)

lemma varbase_lane: "lane_eq 8 j k k' \<Longrightarrow> lane_eq 9 j x x' \<Longrightarrow>
   lane_eq 9 j (mon_mul_varbase_avx2 k x) (mon_mul_varbase_avx2 k' x')"
proof -
  assume k: "lane_eq 8 j k k'" and x: "lane_eq 9 j x x'"
  let ?z9 = "replicate 9 VZERO"
  let ?p1 = "\<lparr>px = ?z9[0 := VSET164 1], py = ?z9, pz = ?z9\<rparr>"
  let ?p2 = "\<lambda>x. \<lparr>px = map (\<lambda>i. x ! i) [0..<9], py = ?z9, pz = ?z9[0 := VSET164 1]\<rparr>"
  have i: "st_eq j (?p1, ?p2 x, VZERO) (?p1, ?p2 x', VZERO)"
    using lane_eq_map_nth [OF x] by (simp add: pp_eq_def lane_eq_refl veq_def)
  have l: "st_eq j (mon_ladder_loop (prune_scalar k) x 255 (?p1, ?p2 x, VZERO))
      (mon_ladder_loop (prune_scalar k') x' 255 (?p1, ?p2 x', VZERO))"
    by (rule loop_lane [OF prune_lane [OF k] x i]) simp
  obtain p1 p2 s where a: "mon_ladder_loop (prune_scalar k) x 255 (?p1, ?p2 x, VZERO) = (p1, p2, s)"
    by (cases "mon_ladder_loop (prune_scalar k) x 255 (?p1, ?p2 x, VZERO)")
  obtain p1' p2' s' where a': "mon_ladder_loop (prune_scalar k') x' 255 (?p1, ?p2 x', VZERO) = (p1', p2', s')"
    by (cases "mon_ladder_loop (prune_scalar k') x' 255 (?p1, ?p2 x', VZERO)")
  from l a a' have e: "pp_eq j p1 p1'" "pp_eq j p2 p2'" "veq j s s'" by simp_all
  have c: "prod_eq pp_eq pp_eq j (mon_cswap_point_avx2 p1 p2 s) (mon_cswap_point_avx2 p1' p2' s')"
    by (rule cswap_point_lane [OF e])
  obtain q1 q2 where q: "mon_cswap_point_avx2 p1 p2 s = (q1, q2)" by (cases "mon_cswap_point_avx2 p1 p2 s")
  obtain q1' q2' where q': "mon_cswap_point_avx2 p1' p2' s' = (q1', q2')" by (cases "mon_cswap_point_avx2 p1' p2' s'")
  from c q q' have qe: "pp_eq j q1 q1'" "pp_eq j q2 q2'" by (simp_all add: prod_eq_def)
  have "lane_eq 9 j (mpi29_gfp_mul_avx2 (mpi29_gfp_inv_avx2 (pz q1)) (px q1))
     (mpi29_gfp_mul_avx2 (mpi29_gfp_inv_avx2 (pz q1')) (px q1'))"
    using qe by (intro mul_lane inv_lane pp_sel)
  then show ?thesis
    by (simp add: mon_mul_varbase_avx2_def Let_def a a' q q')
qed

lemma sharedsecret_lane: "lane_eq 8 j ska ska' \<Longrightarrow> lane_eq 9 j pkb pkb' \<Longrightarrow>
   lane_eq 9 j (sharedsecret ska pkb) (sharedsecret ska' pkb')"
  unfolding sharedsecret_def by (intro final_modp_lane varbase_lane)


lemma VABS8_lane: "veq j x x' \<Longrightarrow> veq j (VABS8 x) (VABS8 x')"
  by (simp add: veq_def VABS8_def)

lemma VSHUF32_A0: "VSHUF32 x 0xA0 = (\<lambda>j. (x j AND 0xFFFFFFFF) OR push_bit 32 (x j AND 0xFFFFFFFF))"
proof
  fix j show "VSHUF32 x 0xA0 j = (x j AND 0xFFFFFFFF) OR push_bit 32 (x j AND 0xFFFFFFFF)"
    by (cases j) (simp_all add: VSHUF32_def dword_def lane_of_def Let_def)
qed

lemma VSHUF32_lane: "veq j x x' \<Longrightarrow> veq j (VSHUF32 x 0xA0) (VSHUF32 x' 0xA0)"
  by (simp add: veq_def VSHUF32_A0)

lemma query_masks_lane:
  "veq j babs babs' \<Longrightarrow> veq j idx idx' \<Longrightarrow>
     list_all2 (veq j) (query_masks n babs idx) (query_masks n babs' idx')"
proof (induction n arbitrary: idx idx')
  case 0
  then show ?case by simp
next
  case (Suc n)
  have "veq j (VADD idx (VSET164 1)) (VADD idx' (VSET164 1))"
    using Suc.prems by (intro veq_ops)
  from Suc.IH [OF Suc.prems(1) this] Suc.prems show ?case
    by (simp add: Let_def) (intro VSHUF32_lane veq_ops; assumption)
qed

lemma length_query_masks: "length (query_masks n babs idx) = n"
  by (induction n arbitrary: idx) (simp_all add: Let_def)

lemma list_all2_lane_eq: "list_all2 (veq j) a a' \<Longrightarrow> length a = n \<Longrightarrow> lane_eq n j a a'"
  by (simp add: lane_eq_def list_all2_conv_all_nth)


lemma query_chunk_lane:
  "lane_eq 9 j m m' \<Longrightarrow> trip_eq j (query_chunk base pos m i) (query_chunk base pos m' i)"
  by (simp add: query_chunk_def Let_def upt8 trip_eq_def lane_eq_def veq_def vec_defs VBROAD64_def)

lemma lut_conv_lane:
  "lane_eq 4 j a a' \<Longrightarrow> lane_eq 9 j (lut_conv_coor2mpi29_avx2 a) (lut_conv_coor2mpi29_avx2 a')"
  by (simp add: lut_conv_coor2mpi29_avx2_def lane_eq_def veq_def del: upt_Suc)

lemma lane_eq4I: "veq j a0 b0 \<Longrightarrow> veq j a1 b1 \<Longrightarrow> veq j a2 b2 \<Longrightarrow> veq j a3 b3 \<Longrightarrow>
   lane_eq 4 j [a0, a1, a2, a3] [b0, b1, b2, b3]"
  by (simp add: lane_eq_def nth_Cons')

lemma lane_eq_replicate: "lane_eq n j (replicate n x) (replicate n x)"
  by (simp add: lane_eq_def veq_def)

lemma query_table_lane:
  assumes b: "veq j b b'"
  shows "pp_eq j (ted_point_query_table_avx2 base pos b) (ted_point_query_table_avx2 base pos b')"
proof -
  let ?m = "query_masks 9 (VABS8 b) VZERO" and ?m' = "query_masks 9 (VABS8 b') VZERO"
  have m: "lane_eq 9 j ?m ?m'"
    by (intro list_all2_lane_eq query_masks_lane VABS8_lane b veq_ops length_query_masks)
  note c = query_chunk_lane [OF m, of base pos, unfolded trip_eq_def]
  have s: "veq j (VSHR b 7) (VSHR b' 7)" using b by (intro veq_ops)
  have bm: "veq j (VSUB VZERO (VSHR b 7)) (VSUB VZERO (VSHR b' 7))" by (intro veq_ops b)
  let ?P = "map (query_chunk base pos ?m) [0..<4]" and ?P' = "map (query_chunk base pos ?m') [0..<4]"
  let ?tmp = "\<lambda>P bb. map (\<lambda>i. VAND (VXOR (map fst P ! i) (map (\<lambda>c. fst (snd c)) P ! i)) (VSUB VZERO (VSHR bb 7))) [0..<4]"
  let ?x = "\<lambda>P bb. map (\<lambda>i. VXOR (map fst P ! i) (?tmp P bb ! i)) [0..<4]"
  let ?y = "\<lambda>P bb. map (\<lambda>i. VXOR (map (\<lambda>c. fst (snd c)) P ! i) (?tmp P bb ! i)) [0..<4]"
  let ?z = "\<lambda>P. map (\<lambda>c. snd (snd c)) P"
  have x: "lane_eq 4 j (?x ?P b) (?x ?P' b')"
    unfolding upt4 list.map using c bm
    by (intro lane_eq4I) (simp_all add: veq_def vec_defs)
  have y: "lane_eq 4 j (?y ?P b) (?y ?P' b')"
    unfolding upt4 list.map using c bm
    by (intro lane_eq4I) (simp_all add: veq_def vec_defs)
  have z: "lane_eq 4 j (?z ?P) (?z ?P')"
    unfolding upt4 list.map using c
    by (intro lane_eq4I) (simp_all add: veq_def vec_defs)
  let ?rz = "lut_conv_coor2mpi29_avx2 (?z ?P)" and ?rz' = "lut_conv_coor2mpi29_avx2 (?z ?P')"
  have rz: "lane_eq 9 j ?rz ?rz'" by (rule lut_conv_lane [OF z])
  have t: "lane_eq 9 j (mpi29_gfp_sub_avx2 (replicate 9 VZERO) (mpi29_copy_avx2 ?rz))
      (mpi29_gfp_sub_avx2 (replicate 9 VZERO) (mpi29_copy_avx2 ?rz'))"
    by (intro sub_lane copy_lane rz lane_eq_replicate)
  have cs: "prod_eq (lane_eq 9) (lane_eq 9) j
      (mpi29_cswap_avx2 ?rz (mpi29_gfp_sub_avx2 (replicate 9 VZERO) (mpi29_copy_avx2 ?rz)) (VSHR b 7))
      (mpi29_cswap_avx2 ?rz' (mpi29_gfp_sub_avx2 (replicate 9 VZERO) (mpi29_copy_avx2 ?rz')) (VSHR b' 7))"
    by (rule cswap_lane [OF rz t s])
  obtain r1 t1 where e1: "mpi29_cswap_avx2 ?rz (mpi29_gfp_sub_avx2 (replicate 9 VZERO) (mpi29_copy_avx2 ?rz)) (VSHR b 7) = (r1, t1)"
    by (cases "mpi29_cswap_avx2 ?rz (mpi29_gfp_sub_avx2 (replicate 9 VZERO) (mpi29_copy_avx2 ?rz)) (VSHR b 7)")
  obtain r2 t2 where e2: "mpi29_cswap_avx2 ?rz' (mpi29_gfp_sub_avx2 (replicate 9 VZERO) (mpi29_copy_avx2 ?rz')) (VSHR b' 7) = (r2, t2)"
    by (cases "mpi29_cswap_avx2 ?rz' (mpi29_gfp_sub_avx2 (replicate 9 VZERO) (mpi29_copy_avx2 ?rz')) (VSHR b' 7)")
  from cs e1 e2 have r: "lane_eq 9 j r1 r2" by (simp add: prod_eq_def)
  have u1: "ted_point_query_table_avx2 base pos b =
      \<lparr>px = lut_conv_coor2mpi29_avx2 (?x ?P b), py = lut_conv_coor2mpi29_avx2 (?y ?P b), pz = r1\<rparr>"
    by (simp only: ted_point_query_table_avx2_def Let_def e1 prod.case)
  have u2: "ted_point_query_table_avx2 base pos b' =
      \<lparr>px = lut_conv_coor2mpi29_avx2 (?x ?P' b'), py = lut_conv_coor2mpi29_avx2 (?y ?P' b'), pz = r2\<rparr>"
    by (simp only: ted_point_query_table_avx2_def Let_def e2 prod.case)
  show ?thesis
    unfolding u1 u2 pp_eq_def ProPoint.simps
    by (intro conjI lut_conv_lane x y r)
qed


lemma ext_sel:
  "ext_eq j p p' \<Longrightarrow> lane_eq 9 j (ex p) (ex p')" "ext_eq j p p' \<Longrightarrow> lane_eq 9 j (ey p) (ey p')"
  "ext_eq j p p' \<Longrightarrow> lane_eq 9 j (ez p) (ez p')" "ext_eq j p p' \<Longrightarrow> lane_eq 9 j (ee p) (ee p')"
  "ext_eq j p p' \<Longrightarrow> lane_eq 9 j (eh p) (eh p')"
  by (simp_all add: ext_eq_def)

lemma ext_upd:
  "ext_eq j p p' \<Longrightarrow> lane_eq 9 j v v' \<Longrightarrow> ext_eq j (p\<lparr>ex := v\<rparr>) (p'\<lparr>ex := v'\<rparr>)"
  "ext_eq j p p' \<Longrightarrow> lane_eq 9 j v v' \<Longrightarrow> ext_eq j (p\<lparr>ey := v\<rparr>) (p'\<lparr>ey := v'\<rparr>)"
  "ext_eq j p p' \<Longrightarrow> lane_eq 9 j v v' \<Longrightarrow> ext_eq j (p\<lparr>ez := v\<rparr>) (p'\<lparr>ez := v'\<rparr>)"
  "ext_eq j p p' \<Longrightarrow> lane_eq 9 j v v' \<Longrightarrow> ext_eq j (p\<lparr>ee := v\<rparr>) (p'\<lparr>ee := v'\<rparr>)"
  "ext_eq j p p' \<Longrightarrow> lane_eq 9 j v v' \<Longrightarrow> ext_eq j (p\<lparr>eh := v\<rparr>) (p'\<lparr>eh := v'\<rparr>)"
  by (simp_all add: ext_eq_def)

lemma ted_add_lane:
  "ext_eq j h h' \<Longrightarrow> pp_eq j q q' \<Longrightarrow> ext_eq j (ted_point_add_avx2 h q) (ted_point_add_avx2 h' q')"
  unfolding ted_point_add_avx2_def
  by (rule lrelD [where R = ext_eq])
    (intro Let_ext Let_lane [where n = 9] ext_upd ext_sel pp_sel field_lane lrelI; assumption)

lemma ted_dbl_lane:
  "ext_eq j h h' \<Longrightarrow> ext_eq j (ted_point_dbl_avx2 h) (ted_point_dbl_avx2 h')"
  unfolding ted_point_dbl_avx2_def
  by (rule lrelD [where R = ext_eq])
    (intro Let_ext Let_lane [where n = 9] ext_upd ext_sel field_lane lrelI; assumption)

lemma scalar_nibbles_lane:
  "lane_eq 8 j k k' \<Longrightarrow> list_all2 (veq j) (scalar_nibbles k) (scalar_nibbles k')"
  by (simp add: scalar_nibbles_def Let_def upt8 lane_eq_def veq_def vec_defs)

lemma length_scalar_nibbles: "length (scalar_nibbles k) = 64"
  by (simp add: scalar_nibbles_def Let_def upt8)

lemma nibble_recode_lane:
  "list_all2 (veq j) es es' \<Longrightarrow> veq j c c' \<Longrightarrow>
     list_all2 (veq j) (nibble_recode es c) (nibble_recode es' c')"
proof (induction es c arbitrary: es' c' rule: nibble_recode.induct)
  case (1 carry)
  then show ?case by simp
next
  case (2 e63 carry)
  then obtain e63' where "es' = [e63']" "veq j e63 e63'"
    by (auto simp: list_all2_Cons1)
  with 2 show ?case by (simp add: Let_def veq_def vec_defs)
next
  case (3 ei v va carry)
  then obtain ei' v' va' where es': "es' = ei' # v' # va'" and h: "veq j ei ei'" and t: "list_all2 (veq j) (v # va) (v' # va')"
    by (auto simp: list_all2_Cons1)
  let ?c = "\<lambda>ei carry. VSHR (VADD (VADD ei carry) (VSET164 8)) 4"
  have c: "veq j (?c ei carry) (?c ei' c')"
    using h "3.prems"(2) by (simp add: veq_def vec_defs)
  have "list_all2 (veq j) (nibble_recode (v # va) (?c ei carry)) (nibble_recode (v' # va') (?c ei' c'))"
    by (rule "3.IH" [OF refl refl refl refl refl refl refl t c])
  moreover have "veq j (VAND (VSUB (VADD ei carry) (VSHL (?c ei carry) 4)) (VSET164 0xFF))
      (VAND (VSUB (VADD ei' c') (VSHL (?c ei' c') 4)) (VSET164 0xFF))"
    using h "3.prems"(2) by (simp add: veq_def vec_defs)
  ultimately show ?case
    unfolding es' by (simp add: Let_def)
qed

lemma length_nibble_recode: "length (nibble_recode es c) = length es"
  by (induction es c rule: nibble_recode.induct) (simp_all add: Let_def)

lemma scalar2nibble_lane:
  "lane_eq 8 j k k' \<Longrightarrow> lane_eq 64 j (ted_conv_scalar2nibble_avx2 k) (ted_conv_scalar2nibble_avx2 k')"
  unfolding ted_conv_scalar2nibble_avx2_def
  by (rule list_all2_lane_eq [OF nibble_recode_lane [OF scalar_nibbles_lane veq_ops(11)]])
     (simp_all add: length_nibble_recode length_scalar_nibbles)

lemma fixbase_loop_lane:
  "lane_eq 64 j e e' \<Longrightarrow> \<forall>i\<in>set idx. i < 64 \<Longrightarrow> ext_eq j h h' \<Longrightarrow> pp_eq j r r' \<Longrightarrow>
     prod_eq ext_eq pp_eq j (fixbase_loop base e idx (h, r)) (fixbase_loop base e' idx (h', r'))"
proof (induction idx arbitrary: h h' r r')
  case Nil
  then show ?case by (simp add: prod_eq_def)
next
  case (Cons i idx)
  have q: "pp_eq j (ted_point_query_table_avx2 base (i div 2) (e ! i)) (ted_point_query_table_avx2 base (i div 2) (e' ! i))"
    using Cons.prems by (intro query_table_lane veq_nth [where n = 64]) simp_all
  have a: "ext_eq j (ted_point_add_avx2 h (ted_point_query_table_avx2 base (i div 2) (e ! i)))
     (ted_point_add_avx2 h' (ted_point_query_table_avx2 base (i div 2) (e' ! i)))"
    by (rule ted_add_lane [OF Cons.prems(3) q])
  show ?case
    using Cons.IH [OF Cons.prems(1) _ a q] Cons.prems(2) by (simp add: Let_def)
qed

lemma ext_eq_refl: "ext_eq j h h" by (simp add: ext_eq_def lane_eq_refl)
lemma pp_eq_refl: "pp_eq j h h" by (simp add: pp_eq_def lane_eq_refl)

lemma ted_mul_fixbase_lane:
  assumes k: "lane_eq 8 j k k'"
  shows "pp_eq j (ted_mul_fixbase_avx2 base k) (ted_mul_fixbase_avx2 base k')"
proof -
  let ?r0 = "\<lparr>px = replicate 9 VZERO, py = replicate 9 VZERO, pz = replicate 9 VZERO\<rparr>"
  let ?e = "ted_conv_scalar2nibble_avx2 (prune_scalar k)" and ?e' = "ted_conv_scalar2nibble_avx2 (prune_scalar k')"
  let ?odd = "map (\<lambda>n. 2 * n + 1) [0..<32]" and ?even = "map (\<lambda>n. 2 * n) [0..<32]"
  have e: "lane_eq 64 j ?e ?e'" by (intro scalar2nibble_lane prune_lane k)
  have l1: "prod_eq ext_eq pp_eq j (fixbase_loop base ?e ?odd (ted_point_init_ext_avx2, ?r0))
      (fixbase_loop base ?e' ?odd (ted_point_init_ext_avx2, ?r0))"
    by (rule fixbase_loop_lane [OF e _ ext_eq_refl pp_eq_refl]) auto
  obtain h1 r1 where a1: "fixbase_loop base ?e ?odd (ted_point_init_ext_avx2, ?r0) = (h1, r1)"
    by (cases "fixbase_loop base ?e ?odd (ted_point_init_ext_avx2, ?r0)")
  obtain h1' r1' where a1': "fixbase_loop base ?e' ?odd (ted_point_init_ext_avx2, ?r0) = (h1', r1')"
    by (cases "fixbase_loop base ?e' ?odd (ted_point_init_ext_avx2, ?r0)")
  from l1 a1 a1' have e1: "ext_eq j h1 h1'" "pp_eq j r1 r1'" by (simp_all add: prod_eq_def)
  let ?d = "\<lambda>h. ted_point_dbl_avx2 (ted_point_dbl_avx2 (ted_point_dbl_avx2 (ted_point_dbl_avx2 h)))"
  have d: "ext_eq j (?d h1) (?d h1')" by (intro ted_dbl_lane e1)
  have l2: "prod_eq ext_eq pp_eq j (fixbase_loop base ?e ?even (?d h1, r1)) (fixbase_loop base ?e' ?even (?d h1', r1'))"
    by (rule fixbase_loop_lane [OF e _ d e1(2)]) auto
  obtain h2 r2 where a2: "fixbase_loop base ?e ?even (?d h1, r1) = (h2, r2)"
    by (cases "fixbase_loop base ?e ?even (?d h1, r1)")
  obtain h2' r2' where a2': "fixbase_loop base ?e' ?even (?d h1', r1') = (h2', r2')"
    by (cases "fixbase_loop base ?e' ?even (?d h1', r1')")
  from l2 a2 a2' have e2: "ext_eq j h2 h2'" "pp_eq j r2 r2'" by (simp_all add: prod_eq_def)
  have "pp_eq j (r2\<lparr>py := mpi29_copy_avx2 (ey h2), pz := mpi29_copy_avx2 (ez h2)\<rparr>)
      (r2'\<lparr>py := mpi29_copy_avx2 (ey h2'), pz := mpi29_copy_avx2 (ez h2')\<rparr>)"
    by (intro pp_upd copy_lane ext_sel e2)
  then show ?thesis
    by (simp only: ted_mul_fixbase_avx2_def Let_def a1 a1' a2 a2' prod.case)
qed

lemma mon_mul_fixbase_lane:
  "lane_eq 8 j k k' \<Longrightarrow> lane_eq 9 j (mon_mul_fixbase_avx2 base k) (mon_mul_fixbase_avx2 base k')"
  unfolding mon_mul_fixbase_avx2_def
  by (rule lrelD [where R = "lane_eq 9"])
    (intro Let_pp Let_lane [where n = 9] pp_upd pp_sel field_lane inv_lane ted_mul_fixbase_lane lrelI; assumption)

lemma keygen_lane:
  "lane_eq 8 j sk sk' \<Longrightarrow> lane_eq 9 j (keygen base sk) (keygen base sk')"
  unfolding keygen_def by (intro final_modp_lane mon_mul_fixbase_lane)

lemma only_lane_eq: "lane_eq n j a (only_lane j n a)"
  by (simp add: lane_eq_def only_lane_def veq_def)

text \<open>
  Claim C8.  For every lane \<open>j\<close> and any two 4-lane inputs to \<open>keygen\<close> (respectively
  \<open>sharedsecret\<close>) that agree in lane \<open>j\<close>, the outputs agree in lane \<open>j\<close>.  In
  particular lane \<open>j\<close> of a batched run equals lane \<open>j\<close> of the run in which only the
  inputs of lane \<open>j\<close> are present (in every lane).  The precomputed table \<open>base\<close> is
  arbitrary.
\<close>

theorem lanes_independent:
  "lane_eq 8 j sk sk' \<Longrightarrow> lane_eq 8 j ska ska' \<Longrightarrow> lane_eq 9 j pkb pkb' \<Longrightarrow>
     lane_eq 9 j (keygen base sk) (keygen base sk') \<and>
     lane_eq 9 j (sharedsecret ska pkb) (sharedsecret ska' pkb') \<and>
     lane_eq 9 j (keygen base sk) (keygen base (only_lane j 8 sk)) \<and>
     lane_eq 9 j (sharedsecret ska pkb) (sharedsecret (only_lane j 8 ska) (only_lane j 9 pkb))"
  by (intro conjI keygen_lane sharedsecret_lane only_lane_eq)

theorem lanes_independent_witness:
  "lane_eq 8 L1 (replicate 8 (VSET64 4 3 2 1)) (replicate 8 (VSET64 9 9 2 9)) \<and>
   lane_eq 9 L1 (replicate 9 (VSET64 8 7 6 5)) (replicate 9 (VSET64 0 0 6 0)) \<and>
   lane_eq 9 L1 (keygen (\<lambda>pos n. \<lparr>lx = [1, 2, 3, 4], ly = [5, 6, 7, 8], lz = [9, 10, 11, 12]\<rparr>)
        (replicate 8 (VSET64 4 3 2 1)))
     (keygen (\<lambda>pos n. \<lparr>lx = [1, 2, 3, 4], ly = [5, 6, 7, 8], lz = [9, 10, 11, 12]\<rparr>)
        (replicate 8 (VSET64 9 9 2 9))) \<and>
   lane_eq 9 L1 (sharedsecret (replicate 8 (VSET64 4 3 2 1)) (replicate 9 (VSET64 8 7 6 5)))
     (sharedsecret (replicate 8 (VSET64 9 9 2 9)) (replicate 9 (VSET64 0 0 6 0)))"
proof -
  have k: "lane_eq 8 L1 (replicate 8 (VSET64 4 3 2 1)) (replicate 8 (VSET64 9 9 2 9))"
    by (simp add: lane_eq_def veq_def VSET64_def)
  have x: "lane_eq 9 L1 (replicate 9 (VSET64 8 7 6 5)) (replicate 9 (VSET64 0 0 6 0))"
    by (simp add: lane_eq_def veq_def VSET64_def)
  from lanes_independent [OF k k x] k x show ?thesis by blast
qed

section \<open>The swap flag of the Montgomery ladder\<close>

lemma and_one_word: "(w::u64) AND 1 = (if bit w 0 then 1 else 0)"
  by (simp add: and_one_eq bit_0 mod_2_eq_odd)

lemma cswap_point_nth:
  assumes "i < 9"
  shows "(px (fst (mon_cswap_point_avx2 p q b)) ! i) j = (if bit (b j) 0 then (px q ! i) j else (px p ! i) j) \<and>
         (pz (fst (mon_cswap_point_avx2 p q b)) ! i) j = (if bit (b j) 0 then (pz q ! i) j else (pz p ! i) j) \<and>
         (px (snd (mon_cswap_point_avx2 p q b)) ! i) j = (if bit (b j) 0 then (px p ! i) j else (px q ! i) j) \<and>
         (pz (snd (mon_cswap_point_avx2 p q b)) ! i) j = (if bit (b j) 0 then (pz p ! i) j else (pz q ! i) j) \<and>
         py (fst (mon_cswap_point_avx2 p q b)) = py p \<and> py (snd (mon_cswap_point_avx2 p q b)) = py q"
  using assms
  by (auto simp: mon_cswap_point_avx2_def Let_def cswap_nth VAND_def VSET164_def and_one_word
      cswap_word_0 cswap_word_1 simp del: upt_Suc)

lemma cswap_point_mask:
  "mon_cswap_point_avx2 p q (VAND s (VSET164 1)) = mon_cswap_point_avx2 p q s"
  by (simp add: mon_cswap_point_avx2_def Let_def VAND_def VSET164_def and.assoc)

lemma VXOR_mask: "VXOR (VAND s (VSET164 1)) (VAND b (VSET164 1)) = VAND (VXOR s b) (VSET164 1)"
  by (simp add: VXOR_def VAND_def VSET164_def bit.conj_xor_distrib2)

lemma bit_ladder_loop_eq:
  "bit_ladder_loop kp x n (mask_flag st) = mask_flag (mon_ladder_loop kp x n st)"
proof (induction n arbitrary: st)
  case 0
  then show ?case by simp
next
  case (Suc i)
  obtain p1 p2 s where st: "st = (p1, p2, s)" by (cases st)
  let ?b = "VSHR (kp ! (i div 32)) (i mod 32)"
  obtain q1 q2 where q: "mon_cswap_point_avx2 p1 p2 (VXOR s ?b) = (q1, q2)"
    by (cases "mon_cswap_point_avx2 p1 p2 (VXOR s ?b)")
  obtain r1 r2 where r: "mon_ladder_step_avx2 q1 q2 x = (r1, r2)"
    by (cases "mon_ladder_step_avx2 q1 q2 x")
  have "bit_ladder_loop kp x i (mask_flag (r1, r2, ?b)) = mask_flag (mon_ladder_loop kp x i (r1, r2, ?b))"
    by (rule Suc.IH)
  then show ?case
    by (simp add: st Let_def scalar_bit_def VXOR_mask cswap_point_mask q r)
qed

lemma bit_mul_varbase_eq: "mon_mul_varbase_avx2 k x = bit_mul_varbase k x"
proof -
  let ?z9 = "replicate 9 VZERO"
  let ?st = "(\<lparr>px = ?z9[0 := VSET164 1], py = ?z9, pz = ?z9\<rparr>,
     \<lparr>px = map (\<lambda>i. x ! i) [0..<9], py = ?z9, pz = ?z9[0 := VSET164 1]\<rparr>, VZERO)"
  have m: "mask_flag ?st = ?st" by (simp add: VAND_def VZERO_def)
  obtain p1 p2 s where l: "mon_ladder_loop (prune_scalar k) x 255 ?st = (p1, p2, s)"
    by (cases "mon_ladder_loop (prune_scalar k) x 255 ?st")
  have "bit_ladder_loop (prune_scalar k) x 255 ?st = mask_flag (mon_ladder_loop (prune_scalar k) x 255 ?st)"
    using bit_ladder_loop_eq [of "prune_scalar k" x 255 ?st] unfolding m .
  then have b: "bit_ladder_loop (prune_scalar k) x 255 ?st = (p1, p2, VAND s (VSET164 1))"
    by (simp add: l)
  show ?thesis
    by (simp only: mon_mul_varbase_avx2_def bit_mul_varbase_def Let_def l b prod.case cswap_point_mask)
qed

text \<open>
  Claim C10.  \<open>mon_cswap_point_avx2\<close> masks its flag with 1 in each lane: for every flag
  vector \<open>b\<close>, every lane \<open>j\<close> and every limb \<open>i < 9\<close> it exchanges the x- and
  z-coordinates of the two points in lane \<open>j\<close> if and only if bit 0 of lane \<open>j\<close> of
  \<open>b\<close> is set (the y-coordinates are not touched), and masking the flag beforehand
  changes nothing.  Hence the high bits of the shifted scalar word \<open>b\<close> and of the flag
  \<open>s\<close> do not affect \<open>mon_mul_varbase_avx2\<close>: it equals the ladder that uses the single
  scalar bits as flags.
\<close>

theorem mon_cswap_point_lsb:
  "i < 9 \<Longrightarrow>
     (px (fst (mon_cswap_point_avx2 p q b)) ! i) j = (if bit (b j) 0 then (px q ! i) j else (px p ! i) j) \<and>
     (pz (fst (mon_cswap_point_avx2 p q b)) ! i) j = (if bit (b j) 0 then (pz q ! i) j else (pz p ! i) j) \<and>
     (px (snd (mon_cswap_point_avx2 p q b)) ! i) j = (if bit (b j) 0 then (px p ! i) j else (px q ! i) j) \<and>
     (pz (snd (mon_cswap_point_avx2 p q b)) ! i) j = (if bit (b j) 0 then (pz p ! i) j else (pz q ! i) j) \<and>
     py (fst (mon_cswap_point_avx2 p q b)) = py p \<and> py (snd (mon_cswap_point_avx2 p q b)) = py q \<and>
     mon_cswap_point_avx2 p q (VAND b (VSET164 1)) = mon_cswap_point_avx2 p q b \<and>
     mon_mul_varbase_avx2 k x = bit_mul_varbase k x"
  using cswap_point_nth [of i p q b j] cswap_point_mask [of p q b] bit_mul_varbase_eq [of k x]
  by simp

theorem mon_cswap_point_lsb_witness:
  "(3::nat) < 9 \<and>
   (px (fst (mon_cswap_point_avx2 \<lparr>px = replicate 9 (VSET164 5), py = [], pz = replicate 9 (VSET164 6)\<rparr>
        \<lparr>px = replicate 9 (VSET164 7), py = [], pz = replicate 9 (VSET164 8)\<rparr> (VSET64 0 1 2 3))) ! 3) L1
     = (if bit (VSET64 0 1 2 3 L1) 0 then (replicate 9 (VSET164 7) ! 3) L1 else (replicate 9 (VSET164 5) ! 3) L1) \<and>
   mon_mul_varbase_avx2 (replicate 8 (VSET164 0x12345678)) (replicate 9 (VSET164 9))
     = bit_mul_varbase (replicate 8 (VSET164 0x12345678)) (replicate 9 (VSET164 9))"
proof -
  have i: "(3::nat) < 9" by simp
  from mon_cswap_point_lsb [OF i, of "\<lparr>px = replicate 9 (VSET164 5), py = [], pz = replicate 9 (VSET164 6)\<rparr>"
      "\<lparr>px = replicate 9 (VSET164 7), py = [], pz = replicate 9 (VSET164 8)\<rparr>" "VSET64 0 1 2 3" L1
      "replicate 8 (VSET164 0x12345678)" "replicate 9 (VSET164 9)"] i
  show ?thesis by simp
qed

section \<open>Signed-nibble recoding of the scalar\<close>

lemma word_le16_cases: "(x::u64) \<le> 16 \<Longrightarrow> x \<in> {0,1,2,3,4,5,6,7,8,9,10,11,12,13,14,15,16}"
proof -
  assume "x \<le> 16"
  then have "unat x \<le> 16" by (simp add: word_le_nat_alt)
  then have "unat x \<in> {0,1,2,3,4,5,6,7,8,9,10,11,12,13,14,15,16}" by (simp; arith)
  then have "word_of_nat (unat x) \<in> (word_of_nat ` {0,1,2,3,4,5,6,7,8,9,10,11,12,13,14,15,16} :: u64 set)" by (rule imageI)
  then show ?thesis by simp
qed

lemma recode_step:
  assumes "(x::u64) \<le> 16"
  shows "drop_bit 4 (x + 8) \<le> 1"
    and "nibble_val ((x - push_bit 4 (drop_bit 4 (x + 8))) AND 0xFF) = uint x - 16 * uint (drop_bit 4 (x + 8))"
    and "- 8 \<le> nibble_val ((x - push_bit 4 (drop_bit 4 (x + 8))) AND 0xFF)"
    and "nibble_val ((x - push_bit 4 (drop_bit 4 (x + 8))) AND 0xFF) \<le> 7"
    and "(x - push_bit 4 (drop_bit 4 (x + 8))) AND 0xFF \<le> 255"
    and "nibble_val (x AND 0xFF) = uint x"
    and "x AND 0xFF \<le> 255"
  using word_le16_cases [OF assms]
  by (auto simp: nibble_val_def)

lemma add_le16: "(e::u64) \<le> 15 \<Longrightarrow> c \<le> 1 \<Longrightarrow> e + c \<le> 16 \<and> uint (e + c) = uint e + uint c"
proof -
  assume "e \<le> 15" "c \<le> 1"
  then have b: "unat e \<le> 15" "unat c \<le> 1" by (simp_all add: word_le_nat_alt)
  then have "unat e + unat c < 2 ^ LENGTH(64)" by simp
  then have u: "unat (e + c) = unat e + unat c" by (simp only: unat_add_lem)
  with b have "unat (e + c) \<le> 16" by simp
  then have "e + c \<le> 16" by (simp add: word_le_nat_alt)
  moreover from u have "uint (e + c) = uint e + uint c" by (simp only: uint_nat)
  ultimately show ?thesis by simp
qed

lemma nibble_recode_sum:
  "es \<noteq> [] \<Longrightarrow> \<forall>e\<in>set es. e j \<le> 15 \<Longrightarrow> c j \<le> 1 \<Longrightarrow>
     horner_sum (\<lambda>v. nibble_val (v j)) 16 (nibble_recode es c) = horner_sum (\<lambda>v. uint (v j)) 16 es + uint (c j)
     \<and> (\<forall>v\<in>set (butlast (nibble_recode es c)). - 8 \<le> nibble_val (v j) \<and> nibble_val (v j) \<le> 7)
     \<and> uint (last es j) \<le> nibble_val (last (nibble_recode es c) j)
     \<and> nibble_val (last (nibble_recode es c) j) \<le> uint (last es j) + 1
     \<and> (\<forall>v\<in>set (nibble_recode es c). v j \<le> 255)"
proof (induction es c rule: nibble_recode.induct)
  case (1 carry)
  then show ?case by simp
next
  case (2 e63 carry)
  then have "e63 j + carry j \<le> 16 \<and> uint (e63 j + carry j) = uint (e63 j) + uint (carry j)"
    by (intro add_le16) simp_all
  moreover have "uint (carry j) \<le> 1" using 2 by (simp add: word_le_def)
  ultimately show ?case
    using recode_step(6,7) [of "e63 j + carry j"]
    by (simp add: Let_def vec_defs)
next
  case (3 ei v va carry)
  let ?x = "ei j + carry j"
  let ?c = "VSHR (VADD (VADD ei carry) (VSET164 8)) 4"
  from 3 have x: "?x \<le> 16 \<and> uint ?x = uint (ei j) + uint (carry j)"
    by (intro add_le16) simp_all
  note s = recode_step [of ?x, OF x [THEN conjunct1]]
  have c: "?c j \<le> 1" using s(1) by (simp add: vec_defs)
  have ih: "horner_sum (\<lambda>v. nibble_val (v j)) 16 (nibble_recode (v # va) ?c)
        = horner_sum (\<lambda>v. uint (v j)) 16 (v # va) + uint (?c j)
     \<and> (\<forall>v\<in>set (butlast (nibble_recode (v # va) ?c)). - 8 \<le> nibble_val (v j) \<and> nibble_val (v j) \<le> 7)
     \<and> uint (last (v # va) j) \<le> nibble_val (last (nibble_recode (v # va) ?c) j)
     \<and> nibble_val (last (nibble_recode (v # va) ?c) j) \<le> uint (last (v # va) j) + 1
     \<and> (\<forall>v\<in>set (nibble_recode (v # va) ?c). v j \<le> 255)"
    using "3.prems" by (intro "3.IH" [OF refl refl refl refl refl refl refl] c) simp_all
  have ne: "nibble_recode (v # va) ?c \<noteq> []"
    by (cases va) (simp_all add: Let_def)
  have r: "nibble_recode (ei # v # va) carry =
      VAND (VSUB (VADD ei carry) (VSHL ?c 4)) (VSET164 0xFF) # nibble_recode (v # va) ?c"
    by (simp add: Let_def)
  show ?case
    unfolding r using ih s x ne
    by (simp add: vec_defs)
qed


lemma unat_drop_bit64: "unat (drop_bit n (w::u64)) = unat w div 2 ^ n"
  unfolding unat_drop_bit_eq by (rule drop_bit_eq_div)

lemma uint_drop_bit: "uint (drop_bit n (w::u64)) = uint w div 2 ^ n"
  using unat_drop_bit64 [of n w] by (simp add: uint_nat zdiv_int del: of_nat_unat)

lemma unat_and_mask: "unat ((w::u64) AND mask n) = unat w mod 2 ^ n"
  unfolding take_bit_eq_mask [symmetric] unsigned_take_bit_eq by (rule take_bit_eq_mod)

lemma uint_and_mask: "uint ((w::u64) AND mask n) = uint w mod 2 ^ n"
  unfolding take_bit_eq_mask [symmetric] unsigned_take_bit_eq by (rule take_bit_eq_mod)

lemma uint_nibble: "uint (drop_bit n (w::u64) AND 15) = (uint w div 2 ^ n) mod 16"
proof -
  have "(15::u64) = mask 4" by (simp add: mask_eq_exp_minus_1)
  then show ?thesis
    by (simp only: uint_and_mask uint_drop_bit) simp
qed

lemma uint_nibble0: "uint ((w::u64) AND 15) = uint w mod 16"
  using uint_nibble [of 0 w] by simp

lemma digits_sum: "(\<Sum>i<n. ((x::int) div 16 ^ i mod 16) * 16 ^ i) = x mod 16 ^ n"
proof (induction n)
  case 0
  then show ?case by simp
next
  case (Suc n)
  have "x mod (16 ^ n * 16) = 16 ^ n * (x div 16 ^ n mod 16) + x mod 16 ^ n"
    by (rule zmod_zmult2_eq) simp
  with Suc show ?case by (simp add: mult.commute)
qed

lemma word_nibbles:
  assumes "(w::u64) \<le> 0xFFFFFFFF"
  shows "horner_sum uint 16 (map (\<lambda>n. drop_bit (4 * n) w AND 15) [0..<8]) = uint w"
proof -
  from assms have "uint w \<le> 0xFFFFFFFF" by (simp add: word_le_def)
  then have m: "uint w mod 16 ^ 8 = uint w" by simp
  have "horner_sum uint 16 (map (\<lambda>n. drop_bit (4 * n) w AND 15) [0..<8])
      = (\<Sum>i<8. (uint w div 16 ^ i mod 16) * 16 ^ i)"
    by (simp add: horner_sum_eq_sum uint_nibble power_mult lessThan_atLeast0 del: upt_Suc)
  with m show ?thesis by (simp only: digits_sum)
qed


lemma scalar_nibbles_eq:
  "map (\<lambda>v. v j) (scalar_nibbles k) = concat (map (\<lambda>i. map (\<lambda>n. drop_bit (4 * n) ((k ! i) j) AND 15) [0..<8]) [0..<8])"
  by (simp add: scalar_nibbles_def Let_def upt8 vec_defs)

lemma horner_sum_map: "horner_sum f a (map g xs) = horner_sum (\<lambda>x. f (g x)) a xs"
  by (induction xs) simp_all

lemma sum_less8: "(\<Sum>i<8. f i) = f 0 + f 1 + f 2 + f 3 + f 4 + f 5 + f 6 + (f (7::nat) :: int)"
proof -
  have "(\<Sum>i<8. f i) = sum_list (map f [0..<8])"
    by (simp add: sum_list_sum_nth lessThan_atLeast0 del: upt_Suc)
  then show ?thesis by (simp add: upt8)
qed

lemma word_nibbles8:
  "(w::u64) \<le> 0xFFFFFFFF \<Longrightarrow>
     horner_sum uint 16 [w AND 15, drop_bit 4 w AND 15, drop_bit 8 w AND 15, drop_bit 12 w AND 15,
      drop_bit 16 w AND 15, drop_bit 20 w AND 15, drop_bit 24 w AND 15, drop_bit 28 w AND 15] = uint w"
  using word_nibbles [of w] by (simp add: upt8)

lemma scalar_nibbles_sum:
  assumes "\<forall>i<8. (k ! i) j \<le> 0xFFFFFFFF"
  shows "horner_sum (\<lambda>v. uint (v j)) 16 (scalar_nibbles k) = scalar_value j k"
proof -
  have w: "\<And>i. i < 8 \<Longrightarrow> horner_sum uint 16 (map (\<lambda>n. drop_bit (4 * n) ((k ! i) j) AND 15) [0..<8]) = uint ((k ! i) j)"
    using assms by (intro word_nibbles) simp
  have "horner_sum (\<lambda>v. uint (v j)) 16 (scalar_nibbles k) = horner_sum uint 16 (map (\<lambda>v. v j) (scalar_nibbles k))"
    by (simp only: horner_sum_map)
  also have "\<dots> = (\<Sum>i<8. uint ((k ! i) j) * 2 ^ (32 * i))"
    unfolding scalar_nibbles_eq sum_less8
    apply (subst (2) upt8)
    apply (simp only: list.map concat.simps horner_sum_append append_Nil2 length_map length_upt w)
    apply simp
    done
  finally show ?thesis by (simp add: scalar_value_def)
qed


lemma scalar_nibbles_le: "\<forall>e\<in>set (scalar_nibbles k). e j \<le> 15"
  by (simp add: scalar_nibbles_def Let_def upt8 vec_defs word_and_le1)

lemma last_scalar_nibbles: "last (scalar_nibbles k) j = drop_bit 28 ((k ! 7) j) AND 15"
  by (simp add: scalar_nibbles_def Let_def upt8 vec_defs)

lemma word_le15_cases: "(x::u64) \<le> 15 \<Longrightarrow> x \<in> {0,1,2,3,4,5,6,7,8,9,10,11,12,13,14,15}"
proof -
  assume "x \<le> 15"
  then have "unat x \<le> 15" by (simp add: word_le_nat_alt)
  then have "unat x \<in> {0,1,2,3,4,5,6,7,8,9,10,11,12,13,14,15}" by (simp; arith)
  then have "word_of_nat (unat x) \<in> (word_of_nat ` {0,1,2,3,4,5,6,7,8,9,10,11,12,13,14,15} :: u64 set)" by (rule imageI)
  then show ?thesis by simp
qed

lemma top_nibble_clamped:
  assumes "(w::u64) AND 0xC0000000 = 0x40000000"
  shows "4 \<le> uint (drop_bit 28 w AND 15) \<and> uint (drop_bit 28 w AND 15) \<le> 7"
proof -
  let ?n = "drop_bit 28 w AND 15"
  have "drop_bit 28 (w AND 0xC0000000) = drop_bit 28 w AND drop_bit 28 0xC0000000"
    by (rule drop_bit_and)
  also have "drop_bit 28 (0xC0000000::u64) = 12" by simp
  finally have d: "drop_bit 28 w AND 12 = 4" unfolding assms by simp
  have "?n AND 12 = (drop_bit 28 w AND 12) AND 15" by (simp add: and.assoc)
  then have a: "?n AND 12 = 4" unfolding d by simp
  have "?n \<le> 15" by (rule word_and_le1)
  from word_le15_cases [OF this] a show ?thesis by auto
qed


text \<open>
  Claim C6, as amended.  For every clamped 256-bit scalar \<open>k\<close> (in lane \<open>j\<close>),
  \<open>ted_conv_scalar2nibble_avx2\<close> produces 64 digits, each an 8-bit value; read as signed
  bytes the digits \<open>e\<^sub>0 .. e\<^sub>6\<^sub>2\<close> lie in \<open>[-8, 7]\<close>, the last digit \<open>e\<^sub>6\<^sub>3\<close> lies in \<open>[4, 8]\<close>
  (it is not recentred), and the sum of \<open>e\<^sub>i * 16^i\<close> equals \<open>k\<close>.
\<close>

theorem scalar2nibble_digits:
  assumes "scalar_clamped j k"
  shows "length (ted_conv_scalar2nibble_avx2 k) = 64 \<and>
     (\<forall>i<64. (ted_conv_scalar2nibble_avx2 k ! i) j \<le> 255) \<and>
     (\<forall>i<63. - 8 \<le> nibble_val ((ted_conv_scalar2nibble_avx2 k ! i) j) \<and>
        nibble_val ((ted_conv_scalar2nibble_avx2 k ! i) j) \<le> 7) \<and>
     4 \<le> nibble_val ((ted_conv_scalar2nibble_avx2 k ! 63) j) \<and>
     nibble_val ((ted_conv_scalar2nibble_avx2 k ! 63) j) \<le> 8 \<and>
     (\<Sum>i<64. nibble_val ((ted_conv_scalar2nibble_avx2 k ! i) j) * 16 ^ i) = scalar_value j k"
proof -
  let ?e = "ted_conv_scalar2nibble_avx2 k"
  from assms have w: "\<forall>i<8. (k ! i) j \<le> 0xFFFFFFFF" and t: "(k ! 7) j AND 0xC0000000 = 0x40000000"
    by (simp_all add: scalar_clamped_def)
  have len: "length ?e = 64"
    by (simp add: ted_conv_scalar2nibble_avx2_def length_nibble_recode length_scalar_nibbles)
  have ne: "scalar_nibbles k \<noteq> []" using length_scalar_nibbles [of k] by auto
  have c: "VZERO j \<le> 1" by (simp add: VZERO_def)
  note r = nibble_recode_sum [of "scalar_nibbles k" j VZERO, OF ne scalar_nibbles_le c,
      folded ted_conv_scalar2nibble_avx2_def]
  have e_ne: "?e \<noteq> []" using len by auto
  have l63: "last ?e = ?e ! 63" using len e_ne by (simp add: last_conv_nth)
  have b255: "\<forall>i<64. (?e ! i) j \<le> 255"
    using r len by (auto simp: all_set_conv_all_nth)
  have mid: "\<forall>i<63. - 8 \<le> nibble_val ((?e ! i) j) \<and> nibble_val ((?e ! i) j) \<le> 7"
  proof (intro allI impI)
    fix i :: nat assume i: "i < 63"
    with len have "butlast ?e ! i = ?e ! i" "i < length (butlast ?e)"
      by (simp_all add: nth_butlast)
    then have "?e ! i \<in> set (butlast ?e)" by (metis nth_mem)
    with r show "- 8 \<le> nibble_val ((?e ! i) j) \<and> nibble_val ((?e ! i) j) \<le> 7" by blast
  qed
  from top_nibble_clamped [OF t] r
  have top: "4 \<le> nibble_val ((?e ! 63) j) \<and> nibble_val ((?e ! 63) j) \<le> 8"
    by (simp add: l63 last_scalar_nibbles VZERO_def)
  have "horner_sum (\<lambda>v. nibble_val (v j)) 16 ?e = scalar_value j k"
    using r scalar_nibbles_sum [OF w] by (simp add: VZERO_def)
  then have sum: "(\<Sum>i<64. nibble_val ((?e ! i) j) * 16 ^ i) = scalar_value j k"
    by (simp add: horner_sum_eq_sum len lessThan_atLeast0)
  from len b255 mid top sum show ?thesis by blast
qed

theorem scalar2nibble_digits_witness:
  "scalar_clamped L0 [VZERO, VZERO, VZERO, VZERO, VZERO, VZERO, VZERO, VSET164 0x78000000] \<and>
   length (ted_conv_scalar2nibble_avx2
      [VZERO, VZERO, VZERO, VZERO, VZERO, VZERO, VZERO, VSET164 0x78000000]) = 64 \<and>
   - 8 \<le> nibble_val ((ted_conv_scalar2nibble_avx2
      [VZERO, VZERO, VZERO, VZERO, VZERO, VZERO, VZERO, VSET164 0x78000000] ! 62) L0) \<and>
   nibble_val ((ted_conv_scalar2nibble_avx2
      [VZERO, VZERO, VZERO, VZERO, VZERO, VZERO, VZERO, VSET164 0x78000000] ! 63) L0) \<le> 8 \<and>
   (\<Sum>i<64. nibble_val ((ted_conv_scalar2nibble_avx2
      [VZERO, VZERO, VZERO, VZERO, VZERO, VZERO, VZERO, VSET164 0x78000000] ! i) L0) * 16 ^ i)
     = scalar_value L0 [VZERO, VZERO, VZERO, VZERO, VZERO, VZERO, VZERO, VSET164 0x78000000]"
proof -
  have c: "scalar_clamped L0 [VZERO, VZERO, VZERO, VZERO, VZERO, VZERO, VZERO, VSET164 0x78000000]"
    by (simp add: scalar_clamped_def vec_defs all_less8)
  have i: "(62::nat) < 63" by simp
  from scalar2nibble_digits [OF c] c i show ?thesis by blast
qed

text \<open>
  The claim as stated asks every digit to lie in \<open>[-8, 7]\<close>.  For the clamped scalar
  \<open>0x78000000 * 2^224\<close> digit 62 is \<open>-8\<close> with a carry, and digit 63 becomes \<open>7 + 1 = 8\<close>.
\<close>

theorem scalar2nibble_digit63_counterexample:
  "scalar_clamped L0 [VZERO, VZERO, VZERO, VZERO, VZERO, VZERO, VZERO, VSET164 0x78000000] \<and>
   nibble_val ((ted_conv_scalar2nibble_avx2
      [VZERO, VZERO, VZERO, VZERO, VZERO, VZERO, VZERO, VSET164 0x78000000] ! 63) L0) = 8 \<and>
   \<not> nibble_val ((ted_conv_scalar2nibble_avx2
      [VZERO, VZERO, VZERO, VZERO, VZERO, VZERO, VZERO, VSET164 0x78000000] ! 63) L0) \<le> 7"
proof -
  have c: "scalar_clamped L0 [VZERO, VZERO, VZERO, VZERO, VZERO, VZERO, VZERO, VSET164 0x78000000]"
    by (simp add: scalar_clamped_def vec_defs all_less8)
  have e: "(ted_conv_scalar2nibble_avx2
      [VZERO, VZERO, VZERO, VZERO, VZERO, VZERO, VZERO, VSET164 0x78000000] ! 63) L0 = 8"
    by (simp add: ted_conv_scalar2nibble_avx2_def scalar_nibbles_def upt8 vec_defs Let_val
        cong: let_weak_cong)
  show ?thesis unfolding e using c by (simp add: nibble_val_def)
qed

section \<open>Limb bounds of the field operations\<close>

text \<open>
  An upper bound is pushed through each straight-line function binding by binding.  The
  rules give, for every vector operation, a bound of the result from bounds of the
  arguments; additions saturate at \<open>2^64 - 1\<close> and multiplications read only the low 32
  bits of their arguments, as \<^verbatim>\<open>_mm256_mul_epu32\<close> does.
\<close>

lemma holdsI: "P x \<Longrightarrow> holds P x" by (simp add: holds_def)

lemma holdsD: "holds P x \<Longrightarrow> P x" by (simp add: holds_def)

lemma Let_vub: "vub t B \<Longrightarrow> (\<And>x. vub x B \<Longrightarrow> holds P (f x)) \<Longrightarrow> holds P (Let t f)"
  by simp


lemma unat_le_U64: "unat (w::u64) \<le> U64"
  using unsigned_less [of w, where 'a = nat] by simp

lemma unat_add_le: "unat ((x::u64) + y) \<le> unat x + unat y"
  by (simp add: unat_word_ariths)

lemma unat_mult_le: "unat ((x::u64) * y) \<le> unat x * unat y"
  by (simp add: unat_word_ariths)

lemma unat_and_le2: "unat ((x::u64) AND y) \<le> unat y"
  using word_and_le1 [of x y] by (simp add: word_le_nat_alt)

lemma unat_and_le1: "unat ((x::u64) AND y) \<le> unat x"
  using word_and_le2 [of x y] by (simp add: word_le_nat_alt)

lemma unat_lo32: "unat ((x::u64) AND 0xFFFFFFFF) \<le> min (unat x) U32"
  using unat_and_le1 [of x "0xFFFFFFFF"] unat_and_le2 [of x "0xFFFFFFFF"] by simp

lemma vub_VSET164: "vub (VSET164 c) (unat c)"
  by (simp add: vub_def VSET164_def)

lemma vub_VZERO: "vub VZERO 0"
  by (simp add: vub_def VZERO_def)

lemma vub_VADD: "vub x A \<Longrightarrow> vub y B \<Longrightarrow> vub (VADD x y) (min (A + B) U64)"
  unfolding vub_def VADD_def
proof
  fix j assume "\<forall>j. unat (x j) \<le> A" "\<forall>j. unat (y j) \<le> B"
  then have "unat (x j) \<le> A" "unat (y j) \<le> B" by simp_all
  with unat_add_le [of "x j" "y j"] unat_le_U64 [of "x j + y j"]
  show "unat (x j + y j) \<le> min (A + B) U64" by simp
qed

lemma vub_VMUL: "vub x A \<Longrightarrow> vub y B \<Longrightarrow> vub (VMUL x y) (min A U32 * min B U32)"
  unfolding vub_def VMUL_def
proof
  fix j assume "\<forall>j. unat (x j) \<le> A" "\<forall>j. unat (y j) \<le> B"
  then have "unat (x j) \<le> A" "unat (y j) \<le> B" by simp_all
  with unat_lo32 [of "x j"] unat_lo32 [of "y j"]
  have "unat (x j AND 0xFFFFFFFF) \<le> min A U32" "unat (y j AND 0xFFFFFFFF) \<le> min B U32" by simp_all
  then have "unat (x j AND 0xFFFFFFFF) * unat (y j AND 0xFFFFFFFF) \<le> min A U32 * min B U32"
    by (rule mult_le_mono)
  with unat_mult_le [of "x j AND 0xFFFFFFFF" "y j AND 0xFFFFFFFF"]
  show "unat ((x j AND 0xFFFFFFFF) * (y j AND 0xFFFFFFFF)) \<le> min A U32 * min B U32" by simp
qed

lemma vub_VMAC: "vub z C \<Longrightarrow> vub x A \<Longrightarrow> vub y B \<Longrightarrow> vub (VMAC z x y) (min (C + min A U32 * min B U32) U64)"
  unfolding VMAC_def by (intro vub_VADD vub_VMUL)

lemma vub_VAND: "vub y B \<Longrightarrow> vub (VAND x y) B"
  unfolding vub_def VAND_def using unat_and_le2 order_trans by blast

lemma vub_VSHR: "vub x A \<Longrightarrow> vub (VSHR x n) (A div 2 ^ n)"
  unfolding vub_def VSHR_def unat_drop_bit64 by (simp add: div_le_mono)

lemma vub_VSHL: "vub x A \<Longrightarrow> vub (VSHL x n) (min (A * 2 ^ n) U64)"
  unfolding vub_def VSHL_def
proof
  fix j assume "\<forall>j. unat (x j) \<le> A"
  then have a: "unat (x j) \<le> A" by simp
  have "push_bit n (x j) = x j * 2 ^ n" by (simp add: push_bit_eq_mult)
  then have "unat (push_bit n (x j)) \<le> unat (x j) * unat (2 ^ n :: u64)"
    using unat_mult_le [of "x j" "2 ^ n"] by simp
  also have "unat (2 ^ n :: u64) \<le> 2 ^ n"
  proof -
    have "unat (2 ^ n :: u64) = unat (word_of_nat (2 ^ n) :: u64)" by simp
    also have "\<dots> \<le> 2 ^ n" unfolding unat_of_nat by (rule mod_less_eq_dividend)
    finally show ?thesis .
  qed
  finally have "unat (push_bit n (x j)) \<le> unat (x j) * 2 ^ n" by simp
  also have "\<dots> \<le> A * 2 ^ n" using a by simp
  finally show "unat (push_bit n (x j)) \<le> min (A * 2 ^ n) U64"
    using unat_le_U64 [of "push_bit n (x j)"] by simp
qed

lemma leqI: "a \<le> b \<Longrightarrow> leq a b" by (simp add: leq_def)

lemma vub_sub: "vub a A \<Longrightarrow> vub b B \<Longrightarrow> leq B (unat d) \<Longrightarrow> vub (VADD (VSET164 d) (VSUB a b)) (min (unat d + A) U64)"
  unfolding vub_def VADD_def VSUB_def VSET164_def
proof
  fix j assume h: "\<forall>j. unat (a j) \<le> A" "\<forall>j. unat (b j) \<le> B" "leq B (unat d)"
  then have ab: "unat (a j) \<le> A" "unat (b j) \<le> unat d" unfolding leq_def using order_trans by blast+
  then have "b j \<le> d" by (simp add: word_le_nat_alt)
  then have "unat (d - b j) = unat d - unat (b j)" by (rule unat_sub)
  then have "unat (d - b j) \<le> unat d" by simp
  moreover have e: "d + (a j - b j) = (d - b j) + a j" by simp
  ultimately have "unat (d + (a j - b j)) \<le> unat d + A"
    unfolding e using unat_add_le [of "d - b j" "a j"] ab by linarith
  then show "unat (d + (a j - b j)) \<le> min (unat d + A) U64"
    using unat_le_U64 [of "d + (a j - b j)"] by simp
qed

lemma vub_nth:
  assumes "limbs_ub a As"
  shows "vub (a ! 0) (As ! 0)" "vub (a ! 1) (As ! 1)" "vub (a ! 2) (As ! 2)" "vub (a ! 3) (As ! 3)"
    "vub (a ! 4) (As ! 4)" "vub (a ! 5) (As ! 5)" "vub (a ! 6) (As ! 6)" "vub (a ! 7) (As ! 7)"
    "vub (a ! 8) (As ! 8)"
  using assms by (simp_all add: limbs_ub_def)

lemma limbs_ubI:
  "vub r0 b0 \<Longrightarrow> vub r1 b1 \<Longrightarrow> vub r2 b2 \<Longrightarrow> vub r3 b3 \<Longrightarrow> vub r4 b4 \<Longrightarrow>
   vub r5 b5 \<Longrightarrow> vub r6 b6 \<Longrightarrow> vub r7 b7 \<Longrightarrow> vub r8 b8 \<Longrightarrow>
   limbs_ub [r0, r1, r2, r3, r4, r5, r6, r7, r8] [b0, b1, b2, b3, b4, b5, b6, b7, b8]"
  by (simp add: limbs_ub_def all_less9)

lemma vub_mono: "vub x A \<Longrightarrow> A \<le> B \<Longrightarrow> vub x B"
  unfolding vub_def using order_trans by blast

lemma limbs_ub_weaken:
  "limbs_ub a [b0, b1, b2, b3, b4, b5, b6, b7, b8] \<Longrightarrow>
   b0 \<le> cs ! 0 \<and> b1 \<le> cs ! 1 \<and> b2 \<le> cs ! 2 \<and> b3 \<le> cs ! 3 \<and> b4 \<le> cs ! 4 \<and>
   b5 \<le> cs ! 5 \<and> b6 \<le> cs ! 6 \<and> b7 \<le> cs ! 7 \<and> b8 \<le> cs ! 8 \<Longrightarrow> limbs_ub a cs"
  unfolding limbs_ub_def all_less9 by (auto intro: vub_mono)

lemma limbs_ub_top: "limbs_ub a (replicate 9 U64)"
  by (simp add: limbs_ub_def vub_def unat_le_U64)

lemmas vub_rules = vub_sub vub_VSET164 vub_VZERO vub_VADD vub_VMUL vub_VMAC vub_VAND vub_VSHR vub_VSHL

lemma add_ub: "limbs_ub a As \<Longrightarrow> limbs_ub b Bs \<Longrightarrow> limbs_ub (mpi29_gfp_add_avx2 a b) (map (\<lambda>i. min (As ! i + Bs ! i) U64) [0..<9])"
  apply (rule limbs_ub_weaken)
   apply (rule holdsD [where P = "\<lambda>r. limbs_ub r _"])
   apply (unfold mpi29_gfp_add_avx2_def)
   apply ((rule Let_vub, (rule vub_rules | erule vub_nth | assumption | (rule leqI, (simp; fail)))+)+)
   apply (rule holdsI, rule limbs_ubI; (rule vub_rules | assumption))
  apply (simp add: upt9)
  done


lemma Let_const: "Let (VSET164 c) f = f (VSET164 c)" by simp

lemma vub_VSET164_u32: "vub (VSET164 (ucast (b::u32))) U32"
proof -
  have "unat (ucast b :: u64) = take_bit 64 (unat b)" by (simp add: unsigned_ucast_eq)
  also have "\<dots> \<le> unat b" by (simp add: take_bit_eq_mod)
  also have "unat b < 2 ^ 32" using unsigned_less [of b, where 'a = nat] by simp
  finally show ?thesis by (simp add: vub_def VSET164_def)
qed

text \<open>Multiplication, squaring and multiplication by a word: bounds that hold for every input.\<close>

lemma mul_ub:
  "limbs_ub (mpi29_gfp_mul_avx2 a b)
     (548779199 # replicate 8 536870911)"
  apply (rule limbs_ub_weaken)
   apply (rule holdsD [where P = "\<lambda>r. limbs_ub r _"])
   apply (unfold mpi29_gfp_mul_avx2_def)
   apply ((rule Let_vub, (rule vub_rules vub_nth [OF limbs_ub_top] | assumption | (rule leqI, (simp; fail)))+)+)
   apply (rule holdsI, rule limbs_ubI; (rule vub_rules | assumption))
  apply (simp add: MASK29_def CONSTC_def BITS29_def LSWP29_def)
  done

lemma sqr_ub:
  "limbs_ub (mpi29_gfp_sqr_avx2 a)
     (548779199 # replicate 8 536870911)"
  apply (rule limbs_ub_weaken)
   apply (rule holdsD [where P = "\<lambda>r. limbs_ub r _"])
   apply (unfold mpi29_gfp_sqr_avx2_def)
   apply ((rule Let_vub, (rule vub_rules vub_nth [OF limbs_ub_top] | assumption | (rule leqI, (simp; fail)))+)+)
   apply (rule holdsI, rule limbs_ubI; (rule vub_rules | assumption))
  apply (simp add: MASK29_def CONSTC_def BITS29_def LSWP29_def)
  done

lemma mul29_ub:
  "limbs_ub (mpi29_gfp_mul29_avx2 a b)
     (1073741822 # 536880639 # replicate 7 536870911)"
  apply (rule limbs_ub_weaken)
   apply (rule holdsD [where P = "\<lambda>r. limbs_ub r _"])
   apply (unfold mpi29_gfp_mul29_avx2_def)
   apply ((rule Let_vub, (rule vub_VSET164_u32 vub_rules vub_nth [OF limbs_ub_top] | assumption | (rule leqI, (simp; fail)))+)+)
   apply (rule holdsI, rule limbs_ubI; (rule vub_rules | assumption))
  apply (simp add: MASK29_def CONSTC_def BITS29_def LSWP29_def)
  done

text \<open>The same functions on reduced inputs.\<close>

lemma mul_red_ub:
  "limbs_ub a (replicate 9 536870911) \<Longrightarrow> limbs_ub b (replicate 9 536870911) \<Longrightarrow> limbs_ub (mpi29_gfp_mul_avx2 a b)
     (538359295 # replicate 8 536870911)"
  apply (rule limbs_ub_weaken)
   apply (rule holdsD [where P = "\<lambda>r. limbs_ub r _"])
   apply (unfold mpi29_gfp_mul_avx2_def)
   apply ((rule Let_vub, (rule vub_rules | erule vub_nth | assumption | (rule leqI, (simp; fail)))+)+)
   apply (rule holdsI, rule limbs_ubI; (rule vub_rules | assumption))
  apply (simp add: MASK29_def CONSTC_def BITS29_def LSWP29_def)
  done

lemma sqr_red_ub:
  "limbs_ub a (replicate 9 536870911) \<Longrightarrow> limbs_ub (mpi29_gfp_sqr_avx2 a)
     (538359295 # replicate 8 536870911)"
  apply (rule limbs_ub_weaken)
   apply (rule holdsD [where P = "\<lambda>r. limbs_ub r _"])
   apply (unfold mpi29_gfp_sqr_avx2_def)
   apply ((rule Let_vub, (rule vub_rules | erule vub_nth | assumption | (rule leqI, (simp; fail)))+)+)
   apply (rule holdsI, rule limbs_ubI; (rule vub_rules | assumption))
  apply (simp add: MASK29_def CONSTC_def BITS29_def LSWP29_def)
  done

lemma mul29_red_ub:
  "limbs_ub a (replicate 9 536870911) \<Longrightarrow> limbs_ub (mpi29_gfp_mul29_avx2 a b)
     (1073741822 # 536880638 # replicate 7 536870911)"
  apply (rule limbs_ub_weaken)
   apply (rule holdsD [where P = "\<lambda>r. limbs_ub r _"])
   apply (unfold mpi29_gfp_mul29_avx2_def)
   apply ((rule Let_vub, (rule vub_VSET164_u32 vub_rules | erule vub_nth | assumption | (rule leqI, (simp; fail)))+)+)
   apply (rule holdsI, rule limbs_ubI; (rule vub_rules | assumption))
  apply (simp add: MASK29_def CONSTC_def BITS29_def LSWP29_def)
  done

text \<open>
  The two subtractions.  The subtrahend must stay below the limbs of \<open>2p\<close> that are added
  first, otherwise the 64-bit subtraction wraps.
\<close>

lemma sub_ub:
  "limbs_ub a As \<Longrightarrow> limbs_ub b (1073739392 # replicate 8 1073741822) \<Longrightarrow> limbs_ub (mpi29_gfp_sub_avx2 a b)
     (map (\<lambda>i. min ((1073739392 # replicate 8 1073741822) ! i + As ! i) U64) [0..<9])"
  apply (rule limbs_ub_weaken)
   apply (rule holdsD [where P = "\<lambda>r. limbs_ub r _"])
   apply (unfold mpi29_gfp_sub_avx2_def)
   apply (simp only: Let_const)
   apply ((rule Let_vub, (rule vub_rules | erule vub_nth | assumption | (rule leqI, (simp add: LSWP29_def MASK29_def; fail)))+)+)
   apply (rule holdsI, rule limbs_ubI; (rule vub_rules | assumption))
  apply (simp add: MASK29_def LSWP29_def upt9)
  done

lemma sbc_ub:
  "limbs_ub a (548779199 # replicate 8 536870911) \<Longrightarrow> limbs_ub b (548779199 # replicate 8 536870911) \<Longrightarrow> limbs_ub (mpi29_gfp_sbc_avx2 a b)
     (536874559 # replicate 8 536870911)"
  apply (rule limbs_ub_weaken)
   apply (rule holdsD [where P = "\<lambda>r. limbs_ub r _"])
   apply (unfold mpi29_gfp_sbc_avx2_def)
   apply (simp only: Let_const)
   apply ((rule Let_vub, (rule vub_rules | erule vub_nth | assumption | (rule leqI, (simp add: LSWP29_def MASK29_def; fail)))+)+)
   apply (rule holdsI, rule limbs_ubI; (rule vub_rules | assumption))
  apply (simp add: MASK29_def CONSTC_def BITS29_def LSWP29_def)
  done

lemma sbc_red_ub:
  "limbs_ub a (replicate 9 536870911) \<Longrightarrow> limbs_ub b (replicate 9 536870911) \<Longrightarrow> limbs_ub (mpi29_gfp_sbc_avx2 a b)
     (536873343 # replicate 8 536870911)"
  apply (rule limbs_ub_weaken)
   apply (rule holdsD [where P = "\<lambda>r. limbs_ub r _"])
   apply (unfold mpi29_gfp_sbc_avx2_def)
   apply (simp only: Let_const)
   apply ((rule Let_vub, (rule vub_rules | erule vub_nth | assumption | (rule leqI, (simp add: LSWP29_def MASK29_def; fail)))+)+)
   apply (rule holdsI, rule limbs_ubI; (rule vub_rules | assumption))
  apply (simp add: MASK29_def CONSTC_def BITS29_def LSWP29_def)
  done

lemma limbs_ub_mono: "limbs_ub a bs \<Longrightarrow> \<forall>i<9. bs ! i \<le> cs ! i \<Longrightarrow> limbs_ub a cs"
  unfolding limbs_ub_def by (auto intro: vub_mono)

lemma reduced_out: "reduced a \<Longrightarrow> limbs_ub a (548779199 # replicate 8 536870911)"
  unfolding reduced_def by (erule limbs_ub_mono) (simp add: all_less9)

lemma reduced_const: "c \<le> 536870911 \<Longrightarrow> reduced (replicate 9 (VSET164 c))"
  by (simp add: reduced_def limbs_ub_def vub_def VSET164_def word_le_nat_alt)

text \<open>
  Claim C4, amended.  For reduced \<open>x\<close> and \<open>y\<close> (all limbs at most \<open>2^29 - 1\<close>) and every
  32-bit word \<open>c\<close>: the sum has all limbs at most \<open>2^30\<close>; the reducing subtraction, the
  product and the square have limbs 1 to 8 at most \<open>2^29 - 1\<close>, and limb 0, which receives
  the folded carry of limb 8 without a further carry step, at most \<open>2^29 - 1 + 2 * 1216\<close>
  for the subtraction and \<open>2^29 - 1 + 1224 * 1216\<close> for the product and the square; the
  product by \<open>c\<close> has limbs 2 to 8 at most \<open>2^29 - 1\<close>, limb 1 at most \<open>2^29 - 1 + 9727\<close>
  and limb 0 at most \<open>2^30 - 2\<close>.
\<close>

theorem field_op_limb_bounds:
  assumes x: "reduced x" and y: "reduced y"
  shows "limbs_ub (mpi29_gfp_add_avx2 x y) (replicate 9 1073741824) \<and>
     limbs_ub (mpi29_gfp_sbc_avx2 x y) (536873343 # replicate 8 536870911) \<and>
     limbs_ub (mpi29_gfp_mul_avx2 x y) (538359295 # replicate 8 536870911) \<and>
     limbs_ub (mpi29_gfp_sqr_avx2 x) (538359295 # replicate 8 536870911) \<and>
     limbs_ub (mpi29_gfp_mul29_avx2 x c) (1073741822 # 536880638 # replicate 7 536870911)"
proof -
  note rx = x [unfolded reduced_def] and ry = y [unfolded reduced_def]
  have "limbs_ub (mpi29_gfp_add_avx2 x y) (replicate 9 1073741824)"
    by (rule limbs_ub_mono [OF add_ub [OF rx ry]]) (simp add: all_less9 upt9)
  with sbc_red_ub [OF rx ry] mul_red_ub [OF rx ry] sqr_red_ub [OF rx] mul29_red_ub [OF rx]
  show ?thesis by blast
qed

theorem field_op_limb_bounds_witness:
  "reduced (replicate 9 (VSET164 1)) \<and> reduced (replicate 9 (VSET164 2)) \<and>
   limbs_ub (mpi29_gfp_add_avx2 (replicate 9 (VSET164 1)) (replicate 9 (VSET164 2)))
     (replicate 9 1073741824) \<and>
   limbs_ub (mpi29_gfp_sbc_avx2 (replicate 9 (VSET164 1)) (replicate 9 (VSET164 2)))
     (536873343 # replicate 8 536870911) \<and>
   limbs_ub (mpi29_gfp_mul_avx2 (replicate 9 (VSET164 1)) (replicate 9 (VSET164 2)))
     (538359295 # replicate 8 536870911) \<and>
   limbs_ub (mpi29_gfp_sqr_avx2 (replicate 9 (VSET164 1))) (538359295 # replicate 8 536870911) \<and>
   limbs_ub (mpi29_gfp_mul29_avx2 (replicate 9 (VSET164 1)) 121665)
     (1073741822 # 536880638 # replicate 7 536870911)"
proof -
  have x: "reduced (replicate 9 (VSET164 1))" by (rule reduced_const) simp
  have y: "reduced (replicate 9 (VSET164 2))" by (rule reduced_const) simp
  from field_op_limb_bounds [OF x y, of 121665] x y show ?thesis by blast
qed

text \<open>
  The claim as stated asks all nine limbs of the reducing subtraction to be at most
  \<open>2^29 - 1\<close>.  For \<open>x = 2431\<close> and \<open>y = 0\<close> every limb of \<open>2p + x - y\<close> carries into the next,
  limb 8 overflows by one, and the fold adds \<open>1216\<close> to limb 0, which was \<open>2^29 - 1\<close>.
\<close>

theorem sbc_limb0_counterexample:
  "reduced (VSET164 2431 # replicate 8 VZERO) \<and> reduced (replicate 9 VZERO) \<and>
   (mpi29_gfp_sbc_avx2 (VSET164 2431 # replicate 8 VZERO) (replicate 9 VZERO) ! 0) L0 = 536872127 \<and>
   \<not> limbs_ub (mpi29_gfp_sbc_avx2 (VSET164 2431 # replicate 8 VZERO) (replicate 9 VZERO))
       (replicate 9 536870911)"
proof -
  have x: "reduced (VSET164 2431 # replicate 8 VZERO)"
    by (simp add: reduced_def limbs_ub_def vub_def VSET164_def VZERO_def all_less9)
  have y: "reduced (replicate 9 VZERO)"
    by (simp add: reduced_def limbs_ub_def vub_def VZERO_def)
  have e: "(mpi29_gfp_sbc_avx2 (VSET164 2431 # replicate 8 VZERO) (replicate 9 VZERO) ! 0) L0 = 536872127"
    by (simp add: mpi29_gfp_sbc_avx2_def vec_defs MASK29_def LSWP29_def CONSTC_def BITS29_def Let_val
        cong: let_weak_cong)
  have n: "\<not> limbs_ub (mpi29_gfp_sbc_avx2 (VSET164 2431 # replicate 8 VZERO) (replicate 9 VZERO))
       (replicate 9 536870911)"
  proof
    assume "limbs_ub (mpi29_gfp_sbc_avx2 (VSET164 2431 # replicate 8 VZERO) (replicate 9 VZERO))
       (replicate 9 536870911)"
    then have "unat ((mpi29_gfp_sbc_avx2 (VSET164 2431 # replicate 8 VZERO) (replicate 9 VZERO) ! 0) L0)
        \<le> 536870911"
      by (simp add: limbs_ub_def vub_def all_less9)
    then show False unfolding e by simp
  qed
  from x y e n show ?thesis by blast
qed

text \<open>The product overflows limb 0 in the same way: all limbs \<open>2^29 - 1\<close> on both sides.\<close>

lemma mul_limb0_example:
  "(mpi29_gfp_mul_avx2 (replicate 9 (VSET164 536870911)) (replicate 9 (VSET164 536870911)) ! 0) L0
     = 538345921"
  by (simp add: mpi29_gfp_mul_avx2_def vec_defs MASK29_def CONSTC_def BITS29_def Let_val
      cong: let_weak_cong)

section \<open>Operands of the ladder step\<close>

text \<open>
  The logged ladder step records, in call order, the operands of the five multiplications,
  four squarings and the multiplication by \<open>(A - 2) / 4\<close> of one step (lines 41 to 54 of
  \<^verbatim>\<open>moncurve.c\<close>).
\<close>

lemma ops_eq:
  "snd (snd (mon_ladder_step_log p q xd)) =
    (let tmp1 = mpi29_gfp_add_avx2 (px p) (pz p);
         px1 = mpi29_gfp_sbc_avx2 (px p) (pz p);
         tmp2 = mpi29_gfp_add_avx2 (px q) (pz q);
         qx1 = mpi29_gfp_sub_avx2 (px q) (pz q);
         pz1 = mpi29_gfp_sqr_avx2 tmp1;
         qz1 = mpi29_gfp_mul_avx2 tmp2 px1;
         tmp2a = mpi29_gfp_mul_avx2 qx1 tmp1;
         tmp1a = mpi29_gfp_sqr_avx2 px1;
         tmp1b = mpi29_gfp_sub_avx2 pz1 tmp1a;
         qx2 = mpi29_gfp_mul29_avx2 tmp1b (word_of_nat ((CONSTA - 2) div 4));
         qx3 = mpi29_gfp_add_avx2 qx2 pz1;
         tmp1c = mpi29_gfp_add_avx2 tmp2a qz1;
         tmp1d = mpi29_gfp_sbc_avx2 tmp2a qz1;
         tmp2b = mpi29_gfp_sqr_avx2 tmp1d
     in [tmp1, tmp2, px1, qx1, tmp1, px1, pz1, tmp1a, tmp1b, qx3, tmp1b, tmp1c, tmp1d, tmp2b, xd])"
  by (simp add: mon_ladder_step_log_def Let_def)

lemma ops_0: "snd (snd (mon_ladder_step_log p q xd)) ! 0 = mpi29_gfp_add_avx2 (px p) (pz p)"
  by (simp add: ops_eq Let_def)

lemma ops_3: "snd (snd (mon_ladder_step_log p q xd)) ! 3 = mpi29_gfp_sub_avx2 (px q) (pz q)"
  by (simp add: ops_eq Let_def)

text \<open>
  The multiplications and squarings leave limbs 1 to 8 at most \<open>2^29 - 1\<close> and limb 0 at
  most \<open>548779199\<close>, whatever they are given; such an element is called nearly reduced.
  This is the form of the four coordinates after every ladder step.  \<open>(A - 2) / 4\<close> is the
  constant \<open>121665\<close>.
\<close>

lemma mul29_ladder_ub:
  "limbs_ub a (1622518591 # replicate 8 1610612733) \<Longrightarrow>
     limbs_ub (mpi29_gfp_mul29_avx2 a 121665) (1073741822 # replicate 8 536870911)"
  apply (rule limbs_ub_weaken)
   apply (rule holdsD [where P = "\<lambda>r. limbs_ub r _"])
   apply (unfold mpi29_gfp_mul29_avx2_def)
   apply ((rule Let_vub, (rule vub_rules | erule vub_nth | assumption | (rule leqI, (simp; fail)))+)+)
   apply (rule holdsI, rule limbs_ubI; (rule vub_rules | assumption))
  apply (simp add: MASK29_def CONSTC_def BITS29_def)
  done

lemma ladder_const: "word_of_nat ((CONSTA - 2) div 4) = (121665 :: u32)"
  by (simp add: CONSTA_def)

lemma nearly_reduced_mul: "nearly_reduced (mpi29_gfp_mul_avx2 a b)"
  unfolding nearly_reduced_def by (rule mul_ub)

lemma nearly_reduced_sqr: "nearly_reduced (mpi29_gfp_sqr_avx2 a)"
  unfolding nearly_reduced_def by (rule sqr_ub)

lemma step_outputs:
  "nearly_reduced (px (fst (mon_ladder_step_avx2 p q xd)))"
  "nearly_reduced (pz (fst (mon_ladder_step_avx2 p q xd)))"
  "nearly_reduced (px (snd (mon_ladder_step_avx2 p q xd)))"
  "nearly_reduced (pz (snd (mon_ladder_step_avx2 p q xd)))"
  by (simp_all add: mon_ladder_step_avx2_def mon_ladder_step_log_def Let_def
      nearly_reduced_mul nearly_reduced_sqr)

lemma nearly_reduced_const: "c \<le> 536870911 \<Longrightarrow> nearly_reduced (replicate 9 (VSET164 c))"
  unfolding nearly_reduced_def using reduced_out [OF reduced_const] .

text \<open>
  The conditional swap between two steps keeps nearly reduced coordinates nearly reduced,
  the ladder starts with them when \<open>x\<close> is reduced, and so does every later state of the
  loop.
\<close>

lemma cswap_point_nearly_reduced:
  assumes "nearly_reduced (px p)" "nearly_reduced (pz p)" "nearly_reduced (px q)" "nearly_reduced (pz q)"
  shows "nearly_reduced (px (fst (mon_cswap_point_avx2 p q b)))"
    "nearly_reduced (pz (fst (mon_cswap_point_avx2 p q b)))"
    "nearly_reduced (px (snd (mon_cswap_point_avx2 p q b)))"
    "nearly_reduced (pz (snd (mon_cswap_point_avx2 p q b)))"
  using assms unfolding nearly_reduced_def limbs_ub_def vub_def
  by (simp_all add: cswap_point_nth)

lemma ladder_loop_inv: "ladder_inv st \<Longrightarrow> ladder_inv (mon_ladder_loop kp x n st)"
proof (induction n arbitrary: st)
  case 0
  then show ?case by simp
next
  case (Suc i)
  obtain p1 p2 s where st: "st = (p1, p2, s)" by (cases st)
  let ?b = "VSHR (kp ! (i div 32)) (i mod 32)"
  obtain q1 q2 where q: "mon_cswap_point_avx2 p1 p2 (VXOR s ?b) = (q1, q2)"
    by (cases "mon_cswap_point_avx2 p1 p2 (VXOR s ?b)")
  obtain r1 r2 where r: "mon_ladder_step_avx2 q1 q2 x = (r1, r2)"
    by (cases "mon_ladder_step_avx2 q1 q2 x")
  have "ladder_inv (r1, r2, ?b)"
    using step_outputs [of q1 q2 x] by (simp add: r)
  then have "ladder_inv (mon_ladder_loop kp x i (r1, r2, ?b))" by (rule Suc.IH)
  then show ?case by (simp add: st Let_def q r)
qed

lemma ladder_start_inv:
  assumes "reduced x"
  shows "ladder_inv (\<lparr>px = (replicate 9 VZERO)[0 := VSET164 1], py = replicate 9 VZERO, pz = replicate 9 VZERO\<rparr>,
     \<lparr>px = map (\<lambda>i. x ! i) [0..<9], py = replicate 9 VZERO, pz = (replicate 9 VZERO)[0 := VSET164 1]\<rparr>,
     VZERO)"
proof -
  have z: "nearly_reduced (replicate 9 VZERO)"
    by (simp add: nearly_reduced_def limbs_ub_def vub_def VZERO_def)
  have o: "nearly_reduced ((replicate 9 VZERO)[0 := VSET164 1])"
    by (simp add: nearly_reduced_def limbs_ub_def vub_def VZERO_def VSET164_def nth_list_update)
  have "limbs_ub (map (\<lambda>i. x ! i) [0..<9]) (replicate 9 536870911)"
    using assms by (simp add: reduced_def limbs_ub_def)
  then have x: "nearly_reduced (map (\<lambda>i. x ! i) [0..<9])"
    unfolding nearly_reduced_def by (rule limbs_ub_mono) (simp add: all_less9)
  from z o x show ?thesis by simp
qed

text \<open>
  Claim C5, amended.  Let the \<open>x\<close> and \<open>z\<close> coordinates of both points be nearly reduced
  (limbs 1 to 8 at most \<open>2^29 - 1\<close>, limb 0 at most \<open>548779199\<close>; every reduced element is
  such) and let \<open>xd\<close> be reduced.  The 15 operands of the multiplications and squarings of
  one ladder step are, in call order, the values listed in the statement, each named after
  the line of \<^verbatim>\<open>moncurve.c\<close> that computes it, and each operand is bounded limb by
  limb by the list at its position:

  \<^item> the sums \<open>s37\<close>, \<open>s39\<close>, \<open>s50\<close> (lines 37, 39, 50; operands 0, 1, 4, 11) are multiplied
    unreduced, with limb 0 at most \<open>1097558398\<close> and limbs 1 to 8 at most \<open>2^30 - 2\<close>; the sum
    \<open>s48\<close> (line 48; operand 9) has limb 0 at most \<open>1622521021\<close> and limbs 1 to 8 at most
    \<open>2^30 - 2\<close>;
  \<^item> the differences \<open>d40\<close> and \<open>d46\<close> (lines 40, 46; operands 3, 8, 10) are made by the plain
    subtraction and are multiplied unreduced, with limb 0 at most \<open>1622518591\<close> and limbs 1
    to 8 at most \<open>1610612733\<close>;
  \<^item> the differences \<open>d38\<close> and \<open>d52\<close> (lines 38, 52; operands 2, 5, 12) are made by the
    reducing subtraction and have limbs 1 to 8 at most \<open>2^29 - 1\<close> and limb 0 at most
    \<open>2^29 - 1 + 3 * 1216\<close>;
  \<^item> the squares \<open>m41\<close>, \<open>m44\<close>, \<open>m53\<close> (operands 6, 7, 13) are nearly reduced, and the last
    operand is \<open>xd\<close> itself, reduced.

  When the coordinates of \<open>p\<close> (of \<open>q\<close>) are reduced, the sum \<open>s37\<close> (\<open>s39\<close>) has all limbs
  at most \<open>2^30 - 2\<close>, \<open>d38\<close> has limb 0 at most \<open>2^29 - 1 + 2 * 1216\<close> and \<open>d40\<close> has limb 0
  at most \<open>1610610303\<close>.  The four coordinates that the step returns are nearly reduced
  again.
\<close>

theorem ladder_step_operands:
  assumes p: "nearly_reduced (px p)" "nearly_reduced (pz p)"
    and q: "nearly_reduced (px q)" "nearly_reduced (pz q)"
    and x: "reduced xd"
  shows
    "let s37 = mpi29_gfp_add_avx2 (px p) (pz p);
         d38 = mpi29_gfp_sbc_avx2 (px p) (pz p);
         s39 = mpi29_gfp_add_avx2 (px q) (pz q);
         d40 = mpi29_gfp_sub_avx2 (px q) (pz q);
         m41 = mpi29_gfp_sqr_avx2 s37;
         m42 = mpi29_gfp_mul_avx2 s39 d38;
         m43 = mpi29_gfp_mul_avx2 d40 s37;
         m44 = mpi29_gfp_sqr_avx2 d38;
         d46 = mpi29_gfp_sub_avx2 m41 m44;
         m47 = mpi29_gfp_mul29_avx2 d46 121665;
         s48 = mpi29_gfp_add_avx2 m47 m41;
         s50 = mpi29_gfp_add_avx2 m43 m42;
         d52 = mpi29_gfp_sbc_avx2 m43 m42;
         m53 = mpi29_gfp_sqr_avx2 d52
     in snd (snd (mon_ladder_step_log p q xd)) =
          [s37, s39, d38, d40, s37, d38, m41, m44, d46, s48, d46, s50, d52, m53, xd] \<and>
        list_all2 limbs_ub (snd (snd (mon_ladder_step_log p q xd)))
          [1097558398 # replicate 8 1073741822, 1097558398 # replicate 8 1073741822,
           536874559 # replicate 8 536870911, 1622518591 # replicate 8 1610612733,
           1097558398 # replicate 8 1073741822, 536874559 # replicate 8 536870911,
           548779199 # replicate 8 536870911, 548779199 # replicate 8 536870911,
           1622518591 # replicate 8 1610612733, 1622521021 # replicate 8 1073741822,
           1622518591 # replicate 8 1610612733, 1097558398 # replicate 8 1073741822,
           536874559 # replicate 8 536870911, 548779199 # replicate 8 536870911,
           replicate 9 536870911] \<and>
        (reduced (px p) \<and> reduced (pz p) \<longrightarrow>
           limbs_ub s37 (replicate 9 1073741822) \<and>
           limbs_ub d38 (536873343 # replicate 8 536870911)) \<and>
        (reduced (px q) \<and> reduced (pz q) \<longrightarrow>
           limbs_ub s39 (replicate 9 1073741822) \<and>
           limbs_ub d40 (1610610303 # replicate 8 1610612733)) \<and>
        nearly_reduced (px (fst (mon_ladder_step_avx2 p q xd))) \<and>
        nearly_reduced (pz (fst (mon_ladder_step_avx2 p q xd))) \<and>
        nearly_reduced (px (snd (mon_ladder_step_avx2 p q xd))) \<and>
        nearly_reduced (pz (snd (mon_ladder_step_avx2 p q xd)))"
proof -
  note np = p [unfolded nearly_reduced_def] and nq = q [unfolded nearly_reduced_def]
  define s37 where "s37 = mpi29_gfp_add_avx2 (px p) (pz p)"
  define d38 where "d38 = mpi29_gfp_sbc_avx2 (px p) (pz p)"
  define s39 where "s39 = mpi29_gfp_add_avx2 (px q) (pz q)"
  define d40 where "d40 = mpi29_gfp_sub_avx2 (px q) (pz q)"
  define m41 where "m41 = mpi29_gfp_sqr_avx2 s37"
  define m42 where "m42 = mpi29_gfp_mul_avx2 s39 d38"
  define m43 where "m43 = mpi29_gfp_mul_avx2 d40 s37"
  define m44 where "m44 = mpi29_gfp_sqr_avx2 d38"
  define d46 where "d46 = mpi29_gfp_sub_avx2 m41 m44"
  define m47 where "m47 = mpi29_gfp_mul29_avx2 d46 121665"
  define s48 where "s48 = mpi29_gfp_add_avx2 m47 m41"
  define s50 where "s50 = mpi29_gfp_add_avx2 m43 m42"
  define d52 where "d52 = mpi29_gfp_sbc_avx2 m43 m42"
  define m53 where "m53 = mpi29_gfp_sqr_avx2 d52"
  note defs = s37_def d38_def s39_def d40_def m41_def m42_def m43_def m44_def d46_def
    m47_def s48_def s50_def d52_def m53_def
  have ops: "snd (snd (mon_ladder_step_log p q xd)) =
      [s37, s39, d38, d40, s37, d38, m41, m44, d46, s48, d46, s50, d52, m53, xd]"
    unfolding ops_eq ladder_const defs Let_def ..
  have n41: "nearly_reduced m41" unfolding m41_def by (rule nearly_reduced_sqr)
  have n42: "nearly_reduced m42" unfolding m42_def by (rule nearly_reduced_mul)
  have n43: "nearly_reduced m43" unfolding m43_def by (rule nearly_reduced_mul)
  have n44: "nearly_reduced m44" unfolding m44_def by (rule nearly_reduced_sqr)
  have n53: "nearly_reduced m53" unfolding m53_def by (rule nearly_reduced_sqr)
  note o41 = n41 [unfolded nearly_reduced_def] and o42 = n42 [unfolded nearly_reduced_def]
    and o43 = n43 [unfolded nearly_reduced_def] and o44 = n44 [unfolded nearly_reduced_def]
  have b37: "limbs_ub s37 (1097558398 # replicate 8 1073741822)" unfolding s37_def
    by (rule limbs_ub_mono [OF add_ub [OF np]]) (simp add: all_less9 upt9)
  have b39: "limbs_ub s39 (1097558398 # replicate 8 1073741822)" unfolding s39_def
    by (rule limbs_ub_mono [OF add_ub [OF nq]]) (simp add: all_less9 upt9)
  have b38: "limbs_ub d38 (536874559 # replicate 8 536870911)" unfolding d38_def
    by (rule sbc_ub [OF np])
  have sub_ok: "limbs_ub a (1073739392 # replicate 8 1073741822)"
    if "limbs_ub a (548779199 # replicate 8 536870911)" for a
    by (rule limbs_ub_mono [OF that]) (simp add: all_less9)
  have b40: "limbs_ub d40 (1622518591 # replicate 8 1610612733)" unfolding d40_def
    by (rule limbs_ub_mono [OF sub_ub [OF nq(1) sub_ok [OF nq(2)]]]) (simp add: all_less9 upt9)
  have b46: "limbs_ub d46 (1622518591 # replicate 8 1610612733)" unfolding d46_def
    by (rule limbs_ub_mono [OF sub_ub [OF o41 sub_ok [OF o44]]]) (simp add: all_less9 upt9)
  have b47: "limbs_ub m47 (1073741822 # replicate 8 536870911)" unfolding m47_def
    by (rule mul29_ladder_ub [OF b46])
  have b48: "limbs_ub s48 (1622521021 # replicate 8 1073741822)" unfolding s48_def
    by (rule limbs_ub_mono [OF add_ub [OF b47 o41]]) (simp add: all_less9 upt9)
  have b50: "limbs_ub s50 (1097558398 # replicate 8 1073741822)" unfolding s50_def
    by (rule limbs_ub_mono [OF add_ub [OF o43 o42]]) (simp add: all_less9 upt9)
  have b52: "limbs_ub d52 (536874559 # replicate 8 536870911)" unfolding d52_def
    by (rule sbc_ub [OF o43 o42])
  have rp: "limbs_ub s37 (replicate 9 1073741822) \<and> limbs_ub d38 (536873343 # replicate 8 536870911)"
    if r: "reduced (px p)" "reduced (pz p)"
  proof -
    note r' = r [unfolded reduced_def]
    have "limbs_ub s37 (replicate 9 1073741822)" unfolding s37_def
      by (rule limbs_ub_mono [OF add_ub [OF r']]) (simp add: all_less9 upt9)
    moreover have "limbs_ub d38 (536873343 # replicate 8 536870911)" unfolding d38_def
      by (rule sbc_red_ub [OF r'])
    ultimately show ?thesis ..
  qed
  have rq: "limbs_ub s39 (replicate 9 1073741822) \<and> limbs_ub d40 (1610610303 # replicate 8 1610612733)"
    if r: "reduced (px q)" "reduced (pz q)"
  proof -
    note r' = r [unfolded reduced_def]
    have d: "limbs_ub (pz q) (1073739392 # replicate 8 1073741822)"
      by (rule limbs_ub_mono [OF r'(2)]) (simp add: all_less9)
    have "limbs_ub s39 (replicate 9 1073741822)" unfolding s39_def
      by (rule limbs_ub_mono [OF add_ub [OF r']]) (simp add: all_less9 upt9)
    moreover have "limbs_ub d40 (1610610303 # replicate 8 1610612733)" unfolding d40_def
      by (rule limbs_ub_mono [OF sub_ub [OF r'(1) d]]) (simp add: all_less9 upt9)
    ultimately show ?thesis ..
  qed
  have all: "list_all2 limbs_ub (snd (snd (mon_ladder_step_log p q xd)))
          [1097558398 # replicate 8 1073741822, 1097558398 # replicate 8 1073741822,
           536874559 # replicate 8 536870911, 1622518591 # replicate 8 1610612733,
           1097558398 # replicate 8 1073741822, 536874559 # replicate 8 536870911,
           548779199 # replicate 8 536870911, 548779199 # replicate 8 536870911,
           1622518591 # replicate 8 1610612733, 1622521021 # replicate 8 1073741822,
           1622518591 # replicate 8 1610612733, 1097558398 # replicate 8 1073741822,
           536874559 # replicate 8 536870911, 548779199 # replicate 8 536870911,
           replicate 9 536870911]"
    unfolding ops
    using b37 b39 b38 b40 o41 o44 b46 b48 b50 b52 n53 [unfolded nearly_reduced_def]
      x [unfolded reduced_def]
    by simp
  have "snd (snd (mon_ladder_step_log p q xd)) =
          [s37, s39, d38, d40, s37, d38, m41, m44, d46, s48, d46, s50, d52, m53, xd] \<and>
        list_all2 limbs_ub (snd (snd (mon_ladder_step_log p q xd)))
          [1097558398 # replicate 8 1073741822, 1097558398 # replicate 8 1073741822,
           536874559 # replicate 8 536870911, 1622518591 # replicate 8 1610612733,
           1097558398 # replicate 8 1073741822, 536874559 # replicate 8 536870911,
           548779199 # replicate 8 536870911, 548779199 # replicate 8 536870911,
           1622518591 # replicate 8 1610612733, 1622521021 # replicate 8 1073741822,
           1622518591 # replicate 8 1610612733, 1097558398 # replicate 8 1073741822,
           536874559 # replicate 8 536870911, 548779199 # replicate 8 536870911,
           replicate 9 536870911] \<and>
        (reduced (px p) \<and> reduced (pz p) \<longrightarrow>
           limbs_ub s37 (replicate 9 1073741822) \<and>
           limbs_ub d38 (536873343 # replicate 8 536870911)) \<and>
        (reduced (px q) \<and> reduced (pz q) \<longrightarrow>
           limbs_ub s39 (replicate 9 1073741822) \<and>
           limbs_ub d40 (1610610303 # replicate 8 1610612733)) \<and>
        nearly_reduced (px (fst (mon_ladder_step_avx2 p q xd))) \<and>
        nearly_reduced (pz (fst (mon_ladder_step_avx2 p q xd))) \<and>
        nearly_reduced (px (snd (mon_ladder_step_avx2 p q xd))) \<and>
        nearly_reduced (pz (snd (mon_ladder_step_avx2 p q xd)))"
    using ops rp rq all step_outputs [of p q xd]
    by blast
  then show ?thesis unfolding Let_def defs .
qed

theorem ladder_step_operands_witness:
  "nearly_reduced (px \<lparr>px = replicate 9 (VSET164 5), py = replicate 9 VZERO, pz = replicate 9 (VSET164 1)\<rparr>) \<and>
   nearly_reduced (pz \<lparr>px = replicate 9 (VSET164 5), py = replicate 9 VZERO, pz = replicate 9 (VSET164 1)\<rparr>) \<and>
   nearly_reduced (px \<lparr>px = replicate 9 (VSET164 7), py = replicate 9 VZERO, pz = replicate 9 (VSET164 3)\<rparr>) \<and>
   nearly_reduced (pz \<lparr>px = replicate 9 (VSET164 7), py = replicate 9 VZERO, pz = replicate 9 (VSET164 3)\<rparr>) \<and>
   reduced (replicate 9 (VSET164 9)) \<and>
   list_all2 limbs_ub (snd (snd (mon_ladder_step_log
      \<lparr>px = replicate 9 (VSET164 5), py = replicate 9 VZERO, pz = replicate 9 (VSET164 1)\<rparr>
      \<lparr>px = replicate 9 (VSET164 7), py = replicate 9 VZERO, pz = replicate 9 (VSET164 3)\<rparr>
      (replicate 9 (VSET164 9)))))
     [1097558398 # replicate 8 1073741822, 1097558398 # replicate 8 1073741822,
      536874559 # replicate 8 536870911, 1622518591 # replicate 8 1610612733,
      1097558398 # replicate 8 1073741822, 536874559 # replicate 8 536870911,
      548779199 # replicate 8 536870911, 548779199 # replicate 8 536870911,
      1622518591 # replicate 8 1610612733, 1622521021 # replicate 8 1073741822,
      1622518591 # replicate 8 1610612733, 1097558398 # replicate 8 1073741822,
      536874559 # replicate 8 536870911, 548779199 # replicate 8 536870911,
      replicate 9 536870911] \<and>
   snd (snd (mon_ladder_step_log
      \<lparr>px = replicate 9 (VSET164 5), py = replicate 9 VZERO, pz = replicate 9 (VSET164 1)\<rparr>
      \<lparr>px = replicate 9 (VSET164 7), py = replicate 9 VZERO, pz = replicate 9 (VSET164 3)\<rparr>
      (replicate 9 (VSET164 9)))) ! 2 =
     mpi29_gfp_sbc_avx2 (replicate 9 (VSET164 5)) (replicate 9 (VSET164 1)) \<and>
   limbs_ub (mpi29_gfp_sbc_avx2 (replicate 9 (VSET164 5)) (replicate 9 (VSET164 1)))
     (536873343 # replicate 8 536870911) \<and>
   nearly_reduced (px (fst (mon_ladder_step_avx2
      \<lparr>px = replicate 9 (VSET164 5), py = replicate 9 VZERO, pz = replicate 9 (VSET164 1)\<rparr>
      \<lparr>px = replicate 9 (VSET164 7), py = replicate 9 VZERO, pz = replicate 9 (VSET164 3)\<rparr>
      (replicate 9 (VSET164 9)))))"
proof -
  let ?P = "\<lparr>px = replicate 9 (VSET164 5), py = replicate 9 VZERO, pz = replicate 9 (VSET164 1)\<rparr>"
  let ?Q = "\<lparr>px = replicate 9 (VSET164 7), py = replicate 9 VZERO, pz = replicate 9 (VSET164 3)\<rparr>"
  let ?X = "replicate 9 (VSET164 9)"
  have a: "nearly_reduced (px ?P)" using nearly_reduced_const [of 5] by simp
  have b: "nearly_reduced (pz ?P)" using nearly_reduced_const [of 1] by simp
  have c: "nearly_reduced (px ?Q)" using nearly_reduced_const [of 7] by simp
  have d: "nearly_reduced (pz ?Q)" using nearly_reduced_const [of 3] by simp
  have e: "reduced ?X" by (rule reduced_const) simp
  have r: "reduced (px ?P) \<and> reduced (pz ?P)"
    using reduced_const [of 5] reduced_const [of 1] by simp
  note t = ladder_step_operands [OF a b c d e, unfolded Let_def]
  from t have o: "snd (snd (mon_ladder_step_log ?P ?Q ?X)) ! 2 =
      mpi29_gfp_sbc_avx2 (replicate 9 (VSET164 5)) (replicate 9 (VSET164 1))"
    by simp
  from t r have s: "limbs_ub (mpi29_gfp_sbc_avx2 (replicate 9 (VSET164 5)) (replicate 9 (VSET164 1)))
     (536873343 # replicate 8 536870911)"
    by simp
  from t a b c d e o s show ?thesis by blast
qed

text \<open>
  The claim as stated asks every operand to be reduced.  With all limbs of all four
  coordinates equal to \<open>2^29 - 1\<close>, the operand of the first squaring is the sum
  \<open>p.x + p.z\<close> with limbs \<open>2^30 - 2\<close>, and the first operand of the second multiplication
  is the plain difference \<open>q.x - q.z\<close>, whose limb 0 is that of \<open>2p\<close>.
\<close>

theorem ladder_step_operand_counterexample:
  "reduced (px \<lparr>px = replicate 9 (VSET164 536870911), py = replicate 9 VZERO,
                pz = replicate 9 (VSET164 536870911)\<rparr>) \<and>
   reduced (pz \<lparr>px = replicate 9 (VSET164 536870911), py = replicate 9 VZERO,
                pz = replicate 9 (VSET164 536870911)\<rparr>) \<and>
   reduced (replicate 9 (VSET164 9)) \<and>
   ((snd (snd (mon_ladder_step_log
      \<lparr>px = replicate 9 (VSET164 536870911), py = replicate 9 VZERO,
        pz = replicate 9 (VSET164 536870911)\<rparr>
      \<lparr>px = replicate 9 (VSET164 536870911), py = replicate 9 VZERO,
        pz = replicate 9 (VSET164 536870911)\<rparr>
      (replicate 9 (VSET164 9)))) ! 0) ! 0) L0 = 1073741822 \<and>
   ((snd (snd (mon_ladder_step_log
      \<lparr>px = replicate 9 (VSET164 536870911), py = replicate 9 VZERO,
        pz = replicate 9 (VSET164 536870911)\<rparr>
      \<lparr>px = replicate 9 (VSET164 536870911), py = replicate 9 VZERO,
        pz = replicate 9 (VSET164 536870911)\<rparr>
      (replicate 9 (VSET164 9)))) ! 3) ! 0) L0 = 1073739392 \<and>
   \<not> reduced (snd (snd (mon_ladder_step_log
      \<lparr>px = replicate 9 (VSET164 536870911), py = replicate 9 VZERO,
        pz = replicate 9 (VSET164 536870911)\<rparr>
      \<lparr>px = replicate 9 (VSET164 536870911), py = replicate 9 VZERO,
        pz = replicate 9 (VSET164 536870911)\<rparr>
      (replicate 9 (VSET164 9)))) ! 0)"
proof -
  let ?P = "\<lparr>px = replicate 9 (VSET164 536870911), py = replicate 9 VZERO,
        pz = replicate 9 (VSET164 536870911)\<rparr>"
  let ?X = "replicate 9 (VSET164 9)"
  have a: "reduced (px ?P)" using reduced_const [of 536870911] by simp
  have b: "reduced (pz ?P)" using reduced_const [of 536870911] by simp
  have e: "reduced ?X" by (rule reduced_const) simp
  have o0: "((snd (snd (mon_ladder_step_log ?P ?P ?X)) ! 0) ! 0) L0 = 1073741822"
    unfolding ops_0 by (simp add: mpi29_gfp_add_avx2_def vec_defs Let_val cong: let_weak_cong)
  have o3: "((snd (snd (mon_ladder_step_log ?P ?P ?X)) ! 3) ! 0) L0 = 1073739392"
    unfolding ops_3
    by (simp add: mpi29_gfp_sub_avx2_def vec_defs LSWP29_def MASK29_def Let_val cong: let_weak_cong)
  have n: "\<not> reduced (snd (snd (mon_ladder_step_log ?P ?P ?X)) ! 0)"
  proof
    assume "reduced (snd (snd (mon_ladder_step_log ?P ?P ?X)) ! 0)"
    then have "unat (((snd (snd (mon_ladder_step_log ?P ?P ?X)) ! 0) ! 0) L0) \<le> 536870911"
      by (simp add: reduced_def limbs_ub_def vub_def all_less9)
    then show False unfolding o0 by simp
  qed
  from a b e o0 o3 n show ?thesis by blast
qed

section \<open>The final reduction\<close>

text \<open>
  Claim C3.  \<^verbatim>\<open>final_modp\<close> folds the bits above bit 255 twice and propagates carries; it
  never subtracts \<open>p\<close>.  Its own description promises a result in \<open>[0, 2^255 - 19)\<close>.  On the
  nine limbs of \<open>p = 2^255 - 19\<close> itself, all at most \<open>2^29 - 1\<close>, nothing is folded and the
  input comes back unchanged: the result has value \<open>p\<close>, which is not below \<open>p\<close>.
\<close>

theorem final_modp_at_p:
  "mpi_value L0 [VSET164 0x1FFFFFED, VSET164 0x1FFFFFFF, VSET164 0x1FFFFFFF, VSET164 0x1FFFFFFF,
      VSET164 0x1FFFFFFF, VSET164 0x1FFFFFFF, VSET164 0x1FFFFFFF, VSET164 0x1FFFFFFF,
      VSET164 0x7FFFFF] = 2 ^ 255 - 19 \<and>
   final_modp [VSET164 0x1FFFFFED, VSET164 0x1FFFFFFF, VSET164 0x1FFFFFFF, VSET164 0x1FFFFFFF,
      VSET164 0x1FFFFFFF, VSET164 0x1FFFFFFF, VSET164 0x1FFFFFFF, VSET164 0x1FFFFFFF,
      VSET164 0x7FFFFF]
     = [VSET164 0x1FFFFFED, VSET164 0x1FFFFFFF, VSET164 0x1FFFFFFF, VSET164 0x1FFFFFFF,
      VSET164 0x1FFFFFFF, VSET164 0x1FFFFFFF, VSET164 0x1FFFFFFF, VSET164 0x1FFFFFFF,
      VSET164 0x7FFFFF] \<and>
   \<not> mpi_value L0 (final_modp [VSET164 0x1FFFFFED, VSET164 0x1FFFFFFF, VSET164 0x1FFFFFFF,
      VSET164 0x1FFFFFFF, VSET164 0x1FFFFFFF, VSET164 0x1FFFFFFF, VSET164 0x1FFFFFFF,
      VSET164 0x1FFFFFFF, VSET164 0x7FFFFF]) < 2 ^ 255 - 19"
proof -
  let ?P = "[VSET164 0x1FFFFFED, VSET164 0x1FFFFFFF, VSET164 0x1FFFFFFF, VSET164 0x1FFFFFFF,
      VSET164 0x1FFFFFFF, VSET164 0x1FFFFFFF, VSET164 0x1FFFFFFF, VSET164 0x1FFFFFFF,
      VSET164 0x7FFFFF]"
  have v: "mpi_value L0 ?P = 2 ^ 255 - 19"
    by (simp add: mpi_value_def upt9 VSET164_def)
  have f: "final_modp ?P = ?P"
    by (simp add: final_modp_def vec_defs MASK29_def BITS29_def Let_val fun_eq_iff
        cong: let_weak_cong)
  have n: "\<not> mpi_value L0 (final_modp ?P) < 2 ^ 255 - 19"
    unfolding f v by simp
  from v f n show ?thesis by blast
qed

end
